theory Spec2Isabelle
  imports Complex_Main "HOL-Library.Word" "HOL-Library.Sublist"
begin

section \<open>Python values, errors and the global argument namespace\<close>

text \<open>
  The module \<^verbatim>\<open>accelerate/utils/megatron_lm.py\<close> adapts the Megatron-LM engine to the
  Accelerate API. Exceptions are values of \<open>py_error\<close>; a function that can raise returns
  \<open>py_error + 'a\<close>. Python floats that are only compared against constants or passed on
  are modelled by \<open>real\<close>; tensors keep PyTorch's own arithmetic, which is a parameter
  of the model.
\<close>

datatype py_error =
    ValueError string
  | NotImplementedError string
  | AttributeError string
  | KeyError string
  | IndexError
  | StopIteration
  | ZeroDivisionError
  | TypeError string
  | RuntimeError string

text \<open>
  Dynamically typed keyword arguments that the code inspects with \<^verbatim>\<open>isinstance\<close>.
  In Python \<^verbatim>\<open>bool\<close> is a subclass of \<^verbatim>\<open>int\<close>.
\<close>

datatype pyval = PyInt int | PyBool bool | PyFloat real | PyStr string

fun isinstance_int :: "pyval \<Rightarrow> bool" where
  "isinstance_int (PyInt _) = True"
| "isinstance_int (PyBool _) = True"
| "isinstance_int _ = False"

fun isinstance_bool :: "pyval \<Rightarrow> bool" where
  "isinstance_bool (PyBool _) = True"
| "isinstance_bool _ = False"

fun int_value :: "pyval \<Rightarrow> int" where
  "int_value (PyInt i) = i"
| "int_value (PyBool b) = (if b then 1 else 0)"
| "int_value _ = 0"

text \<open>
  The fields of Megatron's global \<^verbatim>\<open>args\<close> namespace (\<^verbatim>\<open>get_args()\<close>) that the modelled
  functions read or write.
\<close>

record megatron_args =
  model_type_name :: string
  data_parallel_size :: int
  sequence_parallel :: bool
  recompute_granularity :: "string option"
  vocab_file :: "string option"
  megatron_dataset_flag :: bool
  micro_batch_size :: int
  num_micro_batches :: int
  consumed_samples :: "(int \<times> int \<times> int) option"
  consumed_train_samples :: int
  consumed_valid_samples :: int
  consumed_test_samples :: int
  tensorboard_dir :: "string option"
  fp16 :: bool
  save :: "string option"
  load :: "string option"
  virtual_pipeline_model_parallel_size :: "int option"
  model_len :: "int option"
  pretraining_flag :: bool
  num_labels :: int
  bert_binary_head :: bool
  model_return_dict :: bool

section \<open>Text generation entry point: parameter validation\<close>

text \<open>
  \<^verbatim>\<open>MegatronEngine.megatron_generate\<close>. The keyword arguments read through
  \<^verbatim>\<open>kwargs.get\<close> are the fields of \<open>generate_kwargs\<close>; \<open>None\<close> means the key is absent and
  the default of the \<^verbatim>\<open>get\<close> call applies. For \<open>kw_stop_token\<close> the outer option is the
  presence of the key and the inner one Python's \<^verbatim>\<open>None\<close>.
\<close>

record generate_kwargs =
  kw_top_p_decay :: "real option"
  kw_top_p_bound :: "real option"
  kw_add_BOS :: "pyval option"
  kw_stop_token :: "pyval option option"

text \<open>
  The parameters as they stand after validation and default filling, at the point where
  the function starts preparing the prompt tensors (line \<^verbatim>\<open>sizes_list = None\<close>).
\<close>

record generate_request =
  req_max_length :: "int option"
  req_max_new_tokens :: "int option"
  req_temperature :: real
  req_top_k :: int
  req_top_p :: real
  req_top_p_decay :: real
  req_top_p_bound :: real
  req_add_BOS :: bool
  req_beam_width :: "int option"
  req_stop_token :: "int option"
  req_length_penalty :: real

text \<open>
  What a call does: it raises, it returns a plain string (the early \<^verbatim>\<open>return\<close> of the
  beam-search batch-size check), or it goes on to the prompt preparation, the two
  broadcasts and the engine's generation routine with the validated request.
\<close>

datatype generate_outcome =
    Raises py_error
  | ReturnsStr string
  | Proceeds generate_request

definition check_stop_token ::
  "int \<Rightarrow> generate_kwargs \<Rightarrow> py_error + int option" where
  "check_stop_token tokenizer_eod kwargs =
     (case kw_stop_token kwargs of
        None \<Rightarrow> Inr (Some tokenizer_eod)
      | Some None \<Rightarrow> Inr None
      | Some (Some v) \<Rightarrow>
          if \<not> isinstance_int v then Inl (ValueError ''stop_token must be an integer'')
          else Inr (Some (int_value v)))"

definition megatron_generate ::
  "megatron_args \<Rightarrow> int \<Rightarrow> int list list \<Rightarrow> int option \<Rightarrow> int option \<Rightarrow> pyval option \<Rightarrow>
   real option \<Rightarrow> int option \<Rightarrow> real option \<Rightarrow> real option \<Rightarrow> generate_kwargs \<Rightarrow>
   generate_outcome" where
  "megatron_generate args tokenizer_eod inputs max_length max_new_tokens num_beams
                     temperature top_k top_p length_penalty kwargs =
   (if model_type_name args \<noteq> ''gpt'' then
      Raises (NotImplementedError ''Generate method is not implemented for this model'')
    else if data_parallel_size args > 1 then
      Raises (ValueError ''Generate method requires data parallelism to be 1'')
    else if sequence_parallel args then
      Raises (ValueError ''Generate method requires sequence parallelism to be False'')
    else if recompute_granularity args \<noteq> None then
      Raises (ValueError ''Checkpoint activations cannot be set for inference'')
    else if vocab_file args = None then
      Raises (ValueError ''Vocab file is required for inference'')
    else if max_length = None \<and> max_new_tokens = None then
      Raises (ValueError ''`max_length` or `max_new_tokens` are required for inference'')
    else if temperature \<noteq> None \<and> \<not> (0 < the temperature \<and> the temperature \<le> 100) then
      Raises (ValueError ''temperature must be a positive number less than or equal to 100.0'')
    else let temperature' = (case temperature of None \<Rightarrow> 1 | Some t \<Rightarrow> t) in
    if top_k \<noteq> None \<and> \<not> (0 \<le> the top_k \<and> the top_k \<le> 1000) then
      Raises (ValueError ''top_k must be a positive number less than or equal to 1000'')
    else let top_k' = (case top_k of None \<Rightarrow> 0 | Some k \<Rightarrow> k) in
    if top_p \<noteq> None \<and> the top_p > 0 \<and> top_k' > 0 then
      Raises (ValueError ''top_p and top_k sampling cannot be set together'')
    else if top_p \<noteq> None \<and> \<not> (0 \<le> the top_p \<and> the top_p \<le> 1) then
      Raises (ValueError ''top_p must be less than or equal to 1.0'')
    else let top_p' = (case top_p of None \<Rightarrow> 0 | Some p \<Rightarrow> p);
             top_p_decay = (case kw_top_p_decay kwargs of None \<Rightarrow> 0 | Some d \<Rightarrow> d) in
    if \<not> (0 \<le> top_p_decay \<and> top_p_decay \<le> 1) then
      Raises (ValueError ''top_p_decay must be less than or equal to 1.0'')
    else let top_p_bound = (case kw_top_p_bound kwargs of None \<Rightarrow> 0 | Some b \<Rightarrow> b) in
    if \<not> (0 \<le> top_p_bound \<and> top_p_bound \<le> 1) then
      Raises (ValueError ''top_p_bound must be less than or equal to 1.0'')
    else let add_BOS = (case kw_add_BOS kwargs of None \<Rightarrow> PyBool False | Some v \<Rightarrow> v) in
    if \<not> isinstance_bool add_BOS then
      Raises (ValueError ''add_BOS must be a boolean'')
    else if num_beams \<noteq> None \<and> \<not> isinstance_int (the num_beams) then
      Raises (ValueError ''beam_width must be an integer'')
    else if num_beams \<noteq> None \<and> int_value (the num_beams) < 1 then
      Raises (ValueError ''beam_width must be greater than 0'')
    else if num_beams \<noteq> None \<and> int (length inputs) > 1 then
      ReturnsStr ''When doing beam_search, batch size must be 1''
    else
      (case check_stop_token tokenizer_eod kwargs of
         Inl e \<Rightarrow> Raises e
       | Inr stop_token \<Rightarrow>
           Proceeds \<lparr> req_max_length = max_length,
                      req_max_new_tokens = max_new_tokens,
                      req_temperature = temperature',
                      req_top_k = top_k',
                      req_top_p = top_p',
                      req_top_p_decay = top_p_decay,
                      req_top_p_bound = top_p_bound,
                      req_add_BOS = (add_BOS = PyBool True),
                      req_beam_width = map_option int_value num_beams,
                      req_stop_token = stop_token,
                      req_length_penalty = (case length_penalty of None \<Rightarrow> 1 | Some l \<Rightarrow> l) \<rparr>))"


text \<open>
  The configuration checks of \<^verbatim>\<open>megatron_generate\<close> that come before the sampling
  parameters are looked at, and the accepted range of the temperature.
\<close>

definition passes_env_checks :: "megatron_args \<Rightarrow> int option \<Rightarrow> int option \<Rightarrow> bool" where
  "passes_env_checks args max_length max_new_tokens \<longleftrightarrow>
     model_type_name args = ''gpt'' \<and> \<not> data_parallel_size args > 1 \<and>
     \<not> sequence_parallel args \<and> recompute_granularity args = None \<and>
     vocab_file args \<noteq> None \<and> \<not> (max_length = None \<and> max_new_tokens = None)"

definition temperature_ok :: "real option \<Rightarrow> bool" where
  "temperature_ok t \<longleftrightarrow> (case t of None \<Rightarrow> True | Some x \<Rightarrow> 0 < x \<and> x \<le> 100)"

section \<open>Attention-mask derivation of the encoder-decoder train step\<close>

text \<open>
  \<^verbatim>\<open>T5TrainStep.attn_mask_postprocess\<close>. Its caller passes
  \<^verbatim>\<open>data["attention_mask"].long()\<close>, a 64-bit integer tensor of shape \<open>[b, s]\<close>, here a list
  of \<open>b\<close> rows. The product wraps as 64-bit multiplication does, and the comparison with
  \<open>0.5\<close> reads the product as a signed number (\<open>x < 0.5\<close> is \<open>2 * x < 1\<close>).
\<close>

type_synonym int64 = "64 word"

definition unsqueeze_1 :: "'a list list \<Rightarrow> 'a list list list" where
  \<comment> \<open>\<open>[b, s]\<close> to \<open>[b, 1, s]\<close>\<close>
  "unsqueeze_1 t = map (\<lambda>row. [row]) t"

definition unsqueeze_2 :: "'a list list \<Rightarrow> 'a list list list" where
  \<comment> \<open>\<open>[b, s]\<close> to \<open>[b, s, 1]\<close>\<close>
  "unsqueeze_2 t = map (\<lambda>row. map (\<lambda>x. [x]) row) t"

text \<open>
  Broadcasting product of a \<open>[1, s]\<close> matrix with an \<open>[s', 1]\<close> matrix: entry \<open>(i, j)\<close>
  of the result is \<open>a[0][j] * c[i][0]\<close>.
\<close>

definition mul_1s_s1 :: "int64 list list \<Rightarrow> int64 list list \<Rightarrow> int64 list list" where
  "mul_1s_s1 a c = map (\<lambda>ci. map (\<lambda>x. x * hd ci) (hd a)) c"

definition mul_b1s_bs1 ::
  "int64 list list list \<Rightarrow> int64 list list list \<Rightarrow> int64 list list list" where
  "mul_b1s_bs1 a c = map (\<lambda>(ab, cb). mul_1s_s1 ab cb) (zip a c)"

definition lt_half :: "int64 \<Rightarrow> bool" where
  "lt_half x \<longleftrightarrow> 2 * sint x < 1"

definition attn_mask_postprocess :: "int64 list list \<Rightarrow> bool list list list" where
  "attn_mask_postprocess attention_mask =
     (let attention_mask_b1s = unsqueeze_1 attention_mask;
          attention_mask_bs1 = unsqueeze_2 attention_mask;
          attention_mask_bss = mul_b1s_bs1 attention_mask_b1s attention_mask_bs1;
          extended_attention_mask = map (map (map lt_half)) attention_mask_bss
      in extended_attention_mask)"

text \<open>
  The mask as the specification words it: the elementwise AND of the row and the column
  broadcast, a position being marked exactly when both broadcast entries exceed \<open>0.5\<close>.
\<close>

definition gt_half :: "int64 \<Rightarrow> bool" where
  "gt_half x \<longleftrightarrow> 1 < 2 * sint x"

definition spec_and_mask :: "int64 list list \<Rightarrow> bool list list list" where
  "spec_and_mask attention_mask =
     map (\<lambda>row. map (\<lambda>ci. map (\<lambda>x. gt_half x \<and> gt_half ci) row) row) attention_mask"

definition has_shape2 :: "nat \<Rightarrow> nat \<Rightarrow> 'a list list \<Rightarrow> bool" where
  "has_shape2 b s t \<longleftrightarrow> length t = b \<and> list_all (\<lambda>row. length row = s) t"

definition has_shape3 :: "nat \<Rightarrow> nat \<Rightarrow> nat \<Rightarrow> 'a list list list \<Rightarrow> bool" where
  "has_shape3 b s1 s2 t \<longleftrightarrow> length t = b \<and> list_all (has_shape2 s1 s2) t"

definition is_binary_mask :: "int64 list list \<Rightarrow> bool" where
  "is_binary_mask t \<longleftrightarrow> list_all (list_all (\<lambda>x. x = 0 \<or> x = 1)) t"

section \<open>State shared with the wrapped engine\<close>

text \<open>
  The functions of the module mutate the global \<^verbatim>\<open>args\<close> namespace, attributes of the
  optimizer object that the engine wrapper and the optimizer wrapper both refer to, and
  state owned by Megatron-LM (model, optimizer internals, scheduler, data pipeline,
  checkpoint storage). The last is the type parameter \<open>'x\<close>: the module never looks
  inside it and only hands it to Megatron's entry points, which are parameters of the
  model. Optimizer objects live in a store indexed by reference.
\<close>

record 'x world =
  w_args :: megatron_args
  w_skipped_iter :: "nat \<Rightarrow> bool"
  w_engine :: 'x

section \<open>Batches and iterators\<close>

text \<open>
  A batch is a Python \<^verbatim>\<open>dict\<close> from field names to tensors, kept as an association list
  in insertion order; a tensor is the list of its slices along dimension 0. An iterator
  over a list holds the elements not yet consumed. \<open>DummyMegatronDataloader\<close> is the
  class defined inside \<^verbatim>\<open>_handle_megatron_data_iterator\<close>.
\<close>

type_synonym 'v batch = "(string \<times> 'v) list"

datatype 'v megatron_iterator =
    ListIterator "'v batch list"
  | DummyMegatronDataloader

fun iterator_next ::
  "'v megatron_iterator \<Rightarrow> py_error + ('v batch \<times> 'v megatron_iterator)" where
  "iterator_next (ListIterator []) = Inl StopIteration"
| "iterator_next (ListIterator (b # bs)) = Inr (b, ListIterator bs)"
| "iterator_next DummyMegatronDataloader = Inr ([], DummyMegatronDataloader)"

text \<open>\<open>n\<close> successive \<^verbatim>\<open>next\<close> calls: the batches returned, or the first exception.\<close>

fun next_calls ::
  "nat \<Rightarrow> 'v megatron_iterator \<Rightarrow> py_error + ('v batch list \<times> 'v megatron_iterator)" where
  "next_calls 0 it = Inr ([], it)"
| "next_calls (Suc n) it =
     (case iterator_next it of
        Inl e \<Rightarrow> Inl e
      | Inr (b, it') \<Rightarrow>
          (case next_calls n it' of
             Inl e \<Rightarrow> Inl e
           | Inr (bs, it'') \<Rightarrow> Inr (b # bs, it'')))"

text \<open>
  What \<^verbatim>\<open>build_train_valid_test_data_iterators\<close> hands out for one split: \<^verbatim>\<open>None\<close>, one
  iterator, or (under virtual pipeline parallelism) a list with one entry per model chunk.
\<close>

datatype 'v data_iterator =
    PyNone
  | Iterator "'v megatron_iterator"
  | IteratorList "'v megatron_iterator option list"

text \<open>
  \<^verbatim>\<open>_handle_megatron_data_iterator\<close>. The local flag is put in a tensor and overwritten by
  the broadcast from the tensor-parallel source rank; \<open>is_src_data_iterator_empty\<close> is the
  value the tensor holds after the broadcast.
\<close>

definition handle_megatron_data_iterator ::
  "bool \<Rightarrow> 'v data_iterator \<Rightarrow> 'v data_iterator" where
  "handle_megatron_data_iterator is_src_data_iterator_empty data_iterator =
     (let is_data_iterator_empty = (data_iterator = PyNone) in
      if \<not> is_src_data_iterator_empty \<and> is_data_iterator_empty
      then Iterator DummyMegatronDataloader
      else data_iterator)"

section \<open>Dataloader preparation\<close>

text \<open>
  \<^verbatim>\<open>MegatronLMDummyDataLoader.build_train_valid_test_data_iterators\<close>. Megatron's function
  of the same name is the parameter \<open>megatron_build\<close>: it reads and may update \<^verbatim>\<open>args\<close>
  and the engine state, and returns the three iterators, each possibly \<^verbatim>\<open>None\<close>. The
  dataset provider it is called with is part of that parameter.
  \<open>set_vp_rank\<close> is \<^verbatim>\<open>mpu.set_virtual_pipeline_model_parallel_rank\<close>.
\<close>

type_synonym ('v, 'x) megatron_build =
  "'x world \<Rightarrow>
   ('v megatron_iterator option \<times> 'v megatron_iterator option \<times> 'v megatron_iterator option)
   \<times> 'x world"

definition to_data_iterator :: "'v megatron_iterator option \<Rightarrow> 'v data_iterator" where
  "to_data_iterator it = (case it of None \<Rightarrow> PyNone | Some i \<Rightarrow> Iterator i)"

fun build_chunks ::
  "('v, 'x) megatron_build \<Rightarrow> (int \<Rightarrow> 'x \<Rightarrow> 'x) \<Rightarrow> int list \<Rightarrow>
   'v megatron_iterator option list \<times> 'v megatron_iterator option list \<times>
   'v megatron_iterator option list \<Rightarrow> 'x world \<Rightarrow>
   ('v megatron_iterator option list \<times> 'v megatron_iterator option list \<times>
    'v megatron_iterator option list) \<times> 'x world" where
  "build_chunks megatron_build set_vp_rank [] acc w = (acc, w)"
| "build_chunks megatron_build set_vp_rank (i # is) (tr, va, te) w =
     (let w1 = w\<lparr>w_engine := set_vp_rank i (w_engine w)\<rparr>;
          ((it0, it1, it2), w2) = megatron_build w1
      in build_chunks megatron_build set_vp_rank is (tr @ [it0], va @ [it1], te @ [it2]) w2)"

definition build_train_valid_test_data_iterators ::
  "('v, 'x) megatron_build \<Rightarrow> (int \<Rightarrow> 'x \<Rightarrow> 'x) \<Rightarrow> 'x world \<Rightarrow>
   ('v data_iterator \<times> 'v data_iterator \<times> 'v data_iterator) \<times> 'x world" where
  "build_train_valid_test_data_iterators megatron_build set_vp_rank w =
     (if virtual_pipeline_model_parallel_size (w_args w) \<noteq> None then
        (let n = (case model_len (w_args w) of None \<Rightarrow> 0 | Some k \<Rightarrow> k);
             ((tr, va, te), w') =
               build_chunks megatron_build set_vp_rank [0..n - 1] ([], [], []) w
         in ((IteratorList tr, IteratorList va, IteratorList te), w'))
      else
        (let ((it0, it1, it2), w') = megatron_build w
         in ((to_data_iterator it0, to_data_iterator it1, to_data_iterator it2), w')))"

text \<open>
  A PyTorch \<^verbatim>\<open>DataLoader\<close> as \<^verbatim>\<open>prepare_data_loader\<close> sees it. A sampler object is known
  by whether it is an instance of \<^verbatim>\<open>BatchSampler\<close> and by its \<^verbatim>\<open>batch_size\<close> attribute.
  Of the keys of \<^verbatim>\<open>_PYTORCH_DATALOADER_KWARGS\<close> the function touches four; the values of
  the others are copied from the dataloader unchanged and travel together as \<open>dl_others\<close>
  and \<open>kw_others\<close>. In \<open>dataloader_kwargs\<close> the outer option of a field is the presence of
  the key (\<^verbatim>\<open>del kwargs[k]\<close> makes it \<open>None\<close>), the inner one Python's \<^verbatim>\<open>None\<close>. A
  \<^verbatim>\<open>DataLoader\<close> has no \<^verbatim>\<open>shuffle\<close> attribute, so that key takes the table's default,
  \<^verbatim>\<open>False\<close>.
\<close>

record sampler_obj =
  is_BatchSampler :: bool
  sampler_batch_size :: "int option"

record ('d, 'o) torch_dataloader =
  dl_dataset :: 'd
  dl_batch_size :: "int option"
  dl_sampler :: sampler_obj
  dl_batch_sampler :: "sampler_obj option"
  dl_others :: 'o

record 'o dataloader_kwargs =
  kw_batch_size :: "int option option"
  kw_shuffle :: "bool option"
  kw_sampler :: "sampler_obj option"
  kw_batch_sampler :: "sampler_obj option option"
  kw_others :: 'o

datatype ('d, 'o) dataloader_arg =
    TorchDataLoader "('d, 'o) torch_dataloader"
  | MegatronLMDummyDataLoader

text \<open>
  The generic branch rebuilds the loader with
  \<^verbatim>\<open>torch.utils.data.DataLoader(dataloader.dataset, **kwargs)\<close>. PyTorch's constructor is
  the parameter \<open>DataLoader\<close>: it returns the new loader or raises (a \<^verbatim>\<open>ValueError\<close> for
  keyword arguments it does not accept together, for a sampler given with an iterable
  dataset, for a batch size that is not positive). The branch ends with the call
  \<^verbatim>\<open>prepare_data_loader(dataloader, ...)\<close> into Accelerate's \<^verbatim>\<open>data_loader\<close> module, recorded
  as \<open>prepared_call\<close>: the rebuilt loader and the arguments that the branch fixes.
\<close>

record 'l prepared_call =
  pc_dataloader :: 'l
  pc_num_processes :: int
  pc_process_index :: int
  pc_split_batches :: bool
  pc_put_on_device :: bool

datatype ('l, 'v) prepared =
    PreparedLoader "'l prepared_call"
  | DataIterators "'v data_iterator" "'v data_iterator" "'v data_iterator"

text \<open>
  \<^verbatim>\<open>prepare_data_loader\<close>. \<open>dp_world_size\<close> and \<open>dp_rank\<close> are
  \<^verbatim>\<open>mpu.get_data_parallel_world_size()\<close> and \<^verbatim>\<open>mpu.get_data_parallel_rank()\<close>; \<open>src_empty\<close>
  holds the three flags received from the tensor-parallel source rank. An exception leaves
  the mutations made before it in place, so the state is returned beside the result.
\<close>

definition prepare_data_loader ::
  "('d \<Rightarrow> 'o dataloader_kwargs \<Rightarrow> py_error + 'l) \<Rightarrow>
   ('v, 'x) megatron_build \<Rightarrow> (int \<Rightarrow> 'x \<Rightarrow> 'x) \<Rightarrow> int \<Rightarrow> int \<Rightarrow> bool \<times> bool \<times> bool \<Rightarrow>
   ('d, 'o) dataloader_arg \<Rightarrow> 'x world \<Rightarrow> (py_error + ('l, 'v) prepared) \<times> 'x world" where
  "prepare_data_loader DataLoader megatron_build set_vp_rank dp_world_size dp_rank src_empty
                       dataloader w =
     (let args = w_args w in
      if \<not> megatron_dataset_flag args then
        (case dataloader of
           MegatronLMDummyDataLoader \<Rightarrow> (Inl (AttributeError ''dataset''), w)
         | TorchDataLoader dl \<Rightarrow>
            (let micro_batch_size' = micro_batch_size args * num_micro_batches args;
                 kwargs = \<lparr> kw_batch_size = Some (dl_batch_size dl),
                            kw_shuffle = Some False,
                            kw_sampler = Some (dl_sampler dl),
                            kw_batch_sampler = Some (dl_batch_sampler dl),
                            kw_others = dl_others dl \<rparr>;
                 rebuild = (\<lambda>kw.
                   case DataLoader (dl_dataset dl) kw of
                     Inl e \<Rightarrow> Inl e
                   | Inr dataloader' \<Rightarrow>
                       Inr (PreparedLoader \<lparr> pc_dataloader = dataloader',
                                              pc_num_processes = dp_world_size,
                                              pc_process_index = dp_rank,
                                              pc_split_batches = False,
                                              pc_put_on_device = True \<rparr>))
             in if dl_batch_size dl = None then
                  if is_BatchSampler (dl_sampler dl) then
                    (rebuild (kwargs\<lparr>kw_sampler :=
                       Some ((dl_sampler dl)\<lparr>sampler_batch_size := Some micro_batch_size'\<rparr>)\<rparr>), w)
                  else
                    (case dl_batch_sampler dl of
                       None \<Rightarrow> (Inl (AttributeError ''batch_size''), w)
                     | Some bs \<Rightarrow>
                         (rebuild (kwargs\<lparr>kw_sampler := None,
                            kw_shuffle := None, kw_batch_size := None,
                            kw_batch_sampler :=
                              Some (Some (bs\<lparr>sampler_batch_size := Some micro_batch_size'\<rparr>))\<rparr>), w))
                else
                  (rebuild (kwargs\<lparr>kw_batch_sampler := None,
                     kw_batch_size := Some (Some micro_batch_size')\<rparr>), w)))
      else
        (let (ctr, cva, cte) =
               (case consumed_samples args of Some c \<Rightarrow> c | None \<Rightarrow> (0, 0, 0));
             w1 = w\<lparr>w_args := args\<lparr>consumed_train_samples := ctr,
                                     consumed_valid_samples := cva,
                                     consumed_test_samples := cte\<rparr>\<rparr>;
             w2 = w1\<lparr>w_args := (w_args w1)\<lparr>micro_batch_size :=
                     micro_batch_size (w_args w1) * num_micro_batches (w_args w1)\<rparr>\<rparr>
         in case dataloader of
              TorchDataLoader dl \<Rightarrow>
                (Inl (AttributeError ''build_train_valid_test_data_iterators''), w2)
            | MegatronLMDummyDataLoader \<Rightarrow>
                (let ((train_data_iterator, valid_data_iterator, test_data_iterator), w3) =
                       build_train_valid_test_data_iterators megatron_build set_vp_rank w2
                 in if num_micro_batches (w_args w3) = 0 then (Inl ZeroDivisionError, w3)
                    else
                      (let w4 = w3\<lparr>w_args := (w_args w3)\<lparr>micro_batch_size :=
                                  micro_batch_size (w_args w3) div num_micro_batches (w_args w3)\<rparr>\<rparr>;
                           (train_src, valid_src, test_src) = src_empty
                       in (Inr (DataIterators
                                 (handle_megatron_data_iterator train_src train_data_iterator)
                                 (handle_megatron_data_iterator valid_src valid_data_iterator)
                                 (handle_megatron_data_iterator test_src test_data_iterator)),
                           w4)))))"

text \<open>
  The batch size that keyword arguments ask the \<^verbatim>\<open>DataLoader\<close> constructor for: the
  \<^verbatim>\<open>batch_size\<close> argument when one is given; otherwise the \<^verbatim>\<open>batch_size\<close> of the batch
  sampler; otherwise, with automatic batching off, that of a \<^verbatim>\<open>BatchSampler\<close> passed as
  sampler.
\<close>

definition effective_batch_size :: "'o dataloader_kwargs \<Rightarrow> int option" where
  "effective_batch_size kw =
     (case kw_batch_size kw of
        Some (Some n) \<Rightarrow> Some n
      | _ \<Rightarrow>
         (case kw_batch_sampler kw of
            Some (Some bs) \<Rightarrow> sampler_batch_size bs
          | _ \<Rightarrow>
             (case kw_sampler kw of
                Some s \<Rightarrow> if is_BatchSampler s then sampler_batch_size s else None
              | None \<Rightarrow> None)))"

text \<open>
  Megatron's builder is free to update \<^verbatim>\<open>args\<close>; the micro-batch accounting of the
  native branch relies on it leaving \<^verbatim>\<open>micro_batch_size\<close> and \<^verbatim>\<open>num_micro_batches\<close> alone.
\<close>

definition keeps_batch_args :: "('v, 'x) megatron_build \<Rightarrow> bool" where
  "keeps_batch_args megatron_build \<longleftrightarrow>
     (\<forall>w. micro_batch_size (w_args (snd (megatron_build w))) = micro_batch_size (w_args w) \<and>
          num_micro_batches (w_args (snd (megatron_build w))) = num_micro_batches (w_args w))"

text \<open>
  What the constructor of \<^verbatim>\<open>torch.utils.data.DataLoader\<close> guarantees about its own
  attributes: \<^verbatim>\<open>batch_sampler\<close> excludes a user-supplied \<^verbatim>\<open>sampler\<close>, so a loader that
  has a batch sampler and no \<^verbatim>\<open>batch_size\<close> carries the default sequential or random
  sampler, never a \<^verbatim>\<open>BatchSampler\<close>.
\<close>

definition dataloader_invariant :: "('d, 'o) torch_dataloader \<Rightarrow> bool" where
  "dataloader_invariant dl \<longleftrightarrow>
     (dl_batch_size dl = None \<and> dl_batch_sampler dl \<noteq> None \<longrightarrow>
        \<not> is_BatchSampler (dl_sampler dl))"

text \<open>
  A loader built with \<^verbatim>\<open>batch_size=None\<close> and an ordinary sampler has no batch sampler at
  all; the generic branch then assigns to an attribute of \<^verbatim>\<open>None\<close>.
\<close>

definition no_batch_size_anywhere :: "('d, 'o) torch_dataloader \<Rightarrow> bool" where
  "no_batch_size_anywhere dl \<longleftrightarrow>
     dl_batch_size dl = None \<and> \<not> is_BatchSampler (dl_sampler dl) \<and>
     dl_batch_sampler dl = None"

text \<open>
  The state in which the native branch calls the iterator builder: the consumed-sample
  counters are set and \<^verbatim>\<open>args.micro_batch_size\<close> holds the product with
  \<^verbatim>\<open>args.num_micro_batches\<close>.
\<close>

definition builder_state :: "'x world \<Rightarrow> 'x world" where
  "builder_state w =
     (let (ctr, cva, cte) =
            (case consumed_samples (w_args w) of Some c \<Rightarrow> c | None \<Rightarrow> (0, 0, 0))
      in w\<lparr>w_args := (w_args w)\<lparr>consumed_train_samples := ctr,
                                    consumed_valid_samples := cva,
                                    consumed_test_samples := cte,
                                    micro_batch_size :=
                                      micro_batch_size (w_args w) * num_micro_batches (w_args w)\<rparr>\<rparr>)"

definition to_data_iterators ::
  "'v megatron_iterator option \<times> 'v megatron_iterator option \<times> 'v megatron_iterator option \<Rightarrow>
   'v data_iterator \<times> 'v data_iterator \<times> 'v data_iterator" where
  "to_data_iterators its =
     (case its of (it0, it1, it2) \<Rightarrow>
        (to_data_iterator it0, to_data_iterator it1, to_data_iterator it2))"

definition handle_all ::
  "bool \<times> bool \<times> bool \<Rightarrow> 'v data_iterator \<times> 'v data_iterator \<times> 'v data_iterator \<Rightarrow>
   ('l, 'v) prepared" where
  "handle_all src_empty its =
     (case (src_empty, its) of ((s0, s1, s2), (it0, it1, it2)) \<Rightarrow>
        DataIterators (handle_megatron_data_iterator s0 it0)
                      (handle_megatron_data_iterator s1 it1)
                      (handle_megatron_data_iterator s2 it2))"

text \<open>
  What the generic branch does with the outcome of the constructor: an exception
  propagates, a rebuilt loader goes to Accelerate's \<^verbatim>\<open>prepare_data_loader\<close> with
  \<^verbatim>\<open>split_batches=False\<close> and \<^verbatim>\<open>put_on_device=True\<close>.
\<close>

definition handed_on ::
  "int \<Rightarrow> int \<Rightarrow> py_error + 'l \<Rightarrow> py_error + ('l, 'v) prepared" where
  "handed_on dpw dpr built =
     (case built of
        Inl e \<Rightarrow> Inl e
      | Inr loader \<Rightarrow>
          Inr (PreparedLoader \<lparr> pc_dataloader = loader, pc_num_processes = dpw,
                                 pc_process_index = dpr, pc_split_batches = False,
                                 pc_put_on_device = True \<rparr>))"

section \<open>Tensors\<close>

text \<open>
  Loss values are PyTorch tensors, here an abstract type \<open>'t\<close> with PyTorch's own
  operations as parameters: the type's arithmetic is floating-point arithmetic in the
  tensor's dtype, and nothing is assumed about it. \<open>t_ndim x\<close> is \<^verbatim>\<open>len(x.shape)\<close>,
  \<open>t_radd_int i x\<close> is \<^verbatim>\<open>i + x\<close> for a Python integer \<open>i\<close>, \<open>t_add x y\<close> is \<^verbatim>\<open>x + y\<close>
  (which raises when the shapes do not broadcast), \<open>t_div_int x n\<close> is \<^verbatim>\<open>x / n\<close> for a
  Python integer \<open>n\<close>, \<open>t_concat\<close> is \<^verbatim>\<open>torch.concat\<close> (which raises on a zero-dimensional
  tensor and on sizes that do not match), \<open>t_truediv x y\<close> is \<^verbatim>\<open>x / y\<close> and \<open>t_item\<close>
  is \<^verbatim>\<open>x.item()\<close> (which raises unless the tensor has exactly one element).
\<close>

record ('t, 'f) torch_ops =
  t_ndim :: "'t \<Rightarrow> nat"
  t_radd_int :: "int \<Rightarrow> 't \<Rightarrow> 't"
  t_add :: "'t \<Rightarrow> 't \<Rightarrow> py_error + 't"
  t_div_int :: "'t \<Rightarrow> int \<Rightarrow> 't"
  t_concat :: "'t list \<Rightarrow> py_error + 't"
  t_truediv :: "'t \<Rightarrow> 't \<Rightarrow> py_error + 't"
  t_item :: "'t \<Rightarrow> py_error + 'f"

text \<open>
  Python's \<^verbatim>\<open>sum\<close> over a non-empty list \<open>first # rest\<close>: a left fold that starts from
  the integer \<open>0\<close>, so the first step is \<open>0 + first\<close>.
\<close>

fun sum_from :: "('t, 'f) torch_ops \<Rightarrow> 't \<Rightarrow> 't list \<Rightarrow> py_error + 't" where
  "sum_from ops acc [] = Inr acc"
| "sum_from ops acc (t # ts) =
     (case t_add ops acc t of Inl e \<Rightarrow> Inl e | Inr acc' \<Rightarrow> sum_from ops acc' ts)"

definition py_sum :: "('t, 'f) torch_ops \<Rightarrow> 't \<Rightarrow> 't list \<Rightarrow> py_error + 't" where
  "py_sum ops first rest = sum_from ops (t_radd_int ops 0 first) rest"

type_synonym 't loss_dict = "(string \<times> 't) list"

fun dict_set :: "'k \<Rightarrow> 'a \<Rightarrow> ('k \<times> 'a) list \<Rightarrow> ('k \<times> 'a) list" where
  "dict_set k v [] = [(k, v)]"
| "dict_set k v ((k', v') # rest) =
     (if k = k' then (k, v) # rest else (k', v') # dict_set k v rest)"

definition dict_get :: "('a \<times> 'b) list \<Rightarrow> 'a \<Rightarrow> string \<Rightarrow> py_error + 'b" where
  "dict_get d k name = (case map_of d k of None \<Rightarrow> Inl (KeyError name) | Some v \<Rightarrow> Inr v)"

section \<open>The engine wrapper\<close>

text \<open>
  The fields of \<^verbatim>\<open>MegatronEngine\<close> that its methods read or write. \<open>module_len\<close> is
  \<^verbatim>\<open>len(self.module)\<close>; \<open>optimizer_ref\<close> is the reference held in \<^verbatim>\<open>self.optimizer\<close>.
  \<^verbatim>\<open>MegatronLMOptimizerWrapper\<close> keeps the optimizer it wraps in the same way.
\<close>

record 't megatron_engine =
  module_len :: nat
  optimizer_ref :: nat
  eval_total_loss_dict :: "'t loss_dict"
  iteration :: int
  num_floating_point_operations_so_far :: real

record optimizer_wrapper =
  wrapped_optimizer :: nat

definition step_was_skipped :: "optimizer_wrapper \<Rightarrow> 'x world \<Rightarrow> bool" where
  "step_was_skipped self w = w_skipped_iter w (wrapped_optimizer self)"

text \<open>
  Slicing \<^verbatim>\<open>v[lo:hi]\<close> along dimension 0, with Python's treatment of negative and
  out-of-range bounds.
\<close>

definition py_slice :: "'a list \<Rightarrow> int \<Rightarrow> int \<Rightarrow> 'a list" where
  "py_slice xs lo hi =
     (let n = int (length xs);
          clamp = (\<lambda>i. if i < 0 then max (i + n) 0 else min i n);
          a = clamp lo;
          b = clamp hi
      in take (nat (b - a)) (drop (nat a) xs))"

definition get_batch_data_iterator ::
  "'t megatron_engine \<Rightarrow> megatron_args \<Rightarrow> ('a list) batch \<Rightarrow> ('a list) data_iterator" where
  "get_batch_data_iterator self args batch_data =
     (let data_chunks =
            (if length batch_data > 0 then
               (if num_micro_batches args > 1 then
                  map (\<lambda>i. map (\<lambda>(k, v).
                         (k, py_slice v (i * micro_batch_size args)
                               ((i + 1) * micro_batch_size args))) batch_data)
                      [0..num_micro_batches args - 1]
                else [batch_data])
             else [])
      in if module_len self > 1 then
           (if length batch_data > 0
            then IteratorList (replicate (module_len self) (Some (ListIterator data_chunks)))
            else IteratorList (replicate (module_len self) None))
         else
           (if length batch_data > 0 then Iterator (ListIterator data_chunks) else PyNone))"

text \<open>
  \<^verbatim>\<open>MegatronEngine.train_step\<close>. Megatron's \<^verbatim>\<open>train_step\<close> is the parameter
  \<open>megatron_train_step\<close>; it returns the reduced losses, the skipped-iteration indicator,
  the gradient norm and the number of zeros in the gradient.
\<close>

type_synonym 't train_result = "'t loss_dict \<times> int \<times> real option \<times> int option"

definition train_step ::
  "(('a list) data_iterator \<Rightarrow> 'x world \<Rightarrow> 't train_result \<times> 'x world) \<Rightarrow>
   't megatron_engine \<Rightarrow> ('a list) batch \<Rightarrow> 'x world \<Rightarrow> 't train_result \<times> 'x world" where
  "train_step megatron_train_step self batch_data w =
     (let batch_data_iterator = get_batch_data_iterator self (w_args w) batch_data;
          ((loss_reduced, skipped_iter, grad_norm, num_zeros_in_grad), w1) =
             megatron_train_step batch_data_iterator w;
          w2 = w1\<lparr>w_skipped_iter := (w_skipped_iter w1)(optimizer_ref self := (skipped_iter = 1))\<rparr>
      in ((loss_reduced, skipped_iter, grad_norm, num_zeros_in_grad), w2))"

text \<open>
  The reduction at the end of \<^verbatim>\<open>MegatronEngine.eval_step\<close>: for every key of the first
  loss dictionary, the values of all dictionaries under that key are summed and divided
  by their number when the first of them is zero-dimensional, and concatenated
  otherwise.
\<close>

fun losses_for_key :: "'t loss_dict list \<Rightarrow> string \<Rightarrow> py_error + 't list" where
  "losses_for_key [] key = Inr []"
| "losses_for_key (x # xs) key =
     (case dict_get x key key of
        Inl e \<Rightarrow> Inl e
      | Inr v \<Rightarrow> (case losses_for_key xs key of Inl e \<Rightarrow> Inl e | Inr vs \<Rightarrow> Inr (v # vs)))"

definition reduce_key ::
  "('t, 'f) torch_ops \<Rightarrow> 't loss_dict list \<Rightarrow> string \<Rightarrow> py_error + 't" where
  "reduce_key ops loss_dicts key =
     (case losses_for_key loss_dicts key of
        Inl e \<Rightarrow> Inl e
      | Inr losses_reduced_for_key \<Rightarrow>
          (case losses_reduced_for_key of
             [] \<Rightarrow> Inl IndexError
           | first # rest \<Rightarrow>
               if t_ndim ops first = 0 then
                 (case py_sum ops first rest of
                    Inl e \<Rightarrow> Inl e
                  | Inr s \<Rightarrow> Inr (t_div_int ops s (int (length losses_reduced_for_key))))
               else t_concat ops losses_reduced_for_key))"

fun reduce_keys ::
  "('t, 'f) torch_ops \<Rightarrow> 't loss_dict list \<Rightarrow> string list \<Rightarrow> 't loss_dict \<Rightarrow>
   py_error + 't loss_dict" where
  "reduce_keys ops loss_dicts [] loss_reduced = Inr loss_reduced"
| "reduce_keys ops loss_dicts (key # keys) loss_reduced =
     (case reduce_key ops loss_dicts key of
        Inl e \<Rightarrow> Inl e
      | Inr v \<Rightarrow> reduce_keys ops loss_dicts keys (dict_set key v loss_reduced))"

definition reduce_losses ::
  "('t, 'f) torch_ops \<Rightarrow> 't loss_dict list \<Rightarrow> py_error + 't loss_dict" where
  "reduce_losses ops loss_dicts =
     (case loss_dicts of
        [] \<Rightarrow> Inl IndexError
      | first # _ \<Rightarrow> reduce_keys ops loss_dicts (map fst first) [])"

text \<open>
  \<^verbatim>\<open>MegatronEngine.eval_step\<close>. \<open>forward_only\<close> is the engine's pipeline runner called with
  \<^verbatim>\<open>forward_only=True\<close>; \<open>num_microbatches\<close> is \<^verbatim>\<open>get_num_microbatches()\<close>,
  \<open>dp_world_size\<close> is \<^verbatim>\<open>mpu.get_data_parallel_world_size()\<close> and \<open>is_last_stage\<close> is
  \<^verbatim>\<open>mpu.is_pipeline_last_stage(ignore_virtual=True)\<close>.
\<close>

definition eval_step ::
  "('t, 'f) torch_ops \<Rightarrow>
   (('a list) data_iterator \<Rightarrow> 'x world \<Rightarrow> 't loss_dict list \<times> 'x world) \<Rightarrow> int \<Rightarrow> int \<Rightarrow> bool \<Rightarrow>
   't megatron_engine \<Rightarrow> ('a list) batch \<Rightarrow> 'x world \<Rightarrow>
   (py_error + 't loss_dict) \<times> 'x world" where
  "eval_step ops forward_only num_microbatches dp_world_size is_last_stage self batch_data w =
     (let batch_data_iterator = get_batch_data_iterator self (w_args w) batch_data;
          (loss_dicts, w1) = forward_only batch_data_iterator w;
          w2 = w1\<lparr>w_args := (w_args w1)\<lparr>consumed_valid_samples :=
                  consumed_valid_samples (w_args w1) +
                  dp_world_size * micro_batch_size (w_args w1) * num_microbatches\<rparr>\<rparr>
      in if is_last_stage then (reduce_losses ops loss_dicts, w2) else (Inr [], w2))"

text \<open>
  \<^verbatim>\<open>MegatronEngine.log_eval_results\<close>. For every key of the evaluation totals that does
  not end in \<^verbatim>\<open>_num_iters\<close> the loop reads the total and its iteration count, divides
  them and converts the quotient with \<^verbatim>\<open>item()\<close>; each of these steps can raise. The
  report it prints and writes to tensorboard is not part of the state and is left out;
  at the end the totals are reset.
\<close>

fun check_eval_totals ::
  "('t, 'f) torch_ops \<Rightarrow> 't loss_dict \<Rightarrow> string list \<Rightarrow> py_error + unit" where
  "check_eval_totals ops d [] = Inr ()"
| "check_eval_totals ops d (key # keys) =
     (if suffix ''_num_iters'' key then check_eval_totals ops d keys
      else
        (case dict_get d key key of
           Inl e \<Rightarrow> Inl e
         | Inr total_loss \<Rightarrow>
            (case dict_get d (key @ ''_num_iters'') (key @ ''_num_iters'') of
               Inl e \<Rightarrow> Inl e
             | Inr num_iters \<Rightarrow>
                (case t_truediv ops total_loss num_iters of
                   Inl e \<Rightarrow> Inl e
                 | Inr value \<Rightarrow>
                    (case t_item ops value of
                       Inl e \<Rightarrow> Inl e
                     | Inr _ \<Rightarrow> check_eval_totals ops d keys)))))"

definition log_eval_results ::
  "('t, 'f) torch_ops \<Rightarrow> 't megatron_engine \<Rightarrow> megatron_args \<Rightarrow> py_error + 't megatron_engine" where
  "log_eval_results ops self args =
     (if tensorboard_dir args = None \<or> iteration self = 0 then Inr self
      else (case check_eval_totals ops (eval_total_loss_dict self)
                   (map fst (eval_total_loss_dict self)) of
              Inl e \<Rightarrow> Inl e
            | Inr _ \<Rightarrow> Inr (self\<lparr>eval_total_loss_dict := []\<rparr>)))"

text \<open>
  \<^verbatim>\<open>MegatronEngine.save_checkpoint\<close> and \<^verbatim>\<open>load_checkpoint\<close>. Megatron's functions of the
  same names are the parameters \<open>megatron_save\<close> and \<open>megatron_load\<close>; they find the
  checkpoint directory in \<^verbatim>\<open>args.save\<close> and \<^verbatim>\<open>args.load\<close>. \<open>reload_model_params\<close> is the
  optimizer's method of that name. The barriers around the calls change no state.
\<close>

definition save_checkpoint ::
  "('t, 'f) torch_ops \<Rightarrow> (int \<Rightarrow> real \<Rightarrow> 'x world \<Rightarrow> 'x world) \<Rightarrow> string \<Rightarrow>
   't megatron_engine \<Rightarrow> 'x world \<Rightarrow> (py_error + 't megatron_engine) \<times> 'x world" where
  "save_checkpoint ops megatron_save output_dir self w =
     (case log_eval_results ops self (w_args w) of
        Inl e \<Rightarrow> (Inl e, w)
      | Inr self1 \<Rightarrow>
          (let w1 = w\<lparr>w_args := (w_args w)\<lparr>save := Some output_dir\<rparr>\<rparr>;
               w2 = megatron_save (iteration self1)
                      (num_floating_point_operations_so_far self1) w1
           in (Inr self1, w2)))"

definition load_checkpoint ::
  "('x world \<Rightarrow> (int \<times> real) \<times> 'x world) \<Rightarrow> ('x \<Rightarrow> 'x) \<Rightarrow> string \<Rightarrow> 't megatron_engine \<Rightarrow>
   'x world \<Rightarrow> 't megatron_engine \<times> 'x world" where
  "load_checkpoint megatron_load reload_model_params input_dir self w =
     (let w1 = w\<lparr>w_args := (w_args w)\<lparr>load := Some input_dir,
                                       consumed_train_samples := 0,
                                       consumed_valid_samples := 0\<rparr>\<rparr>;
          ((iteration', num_floating_point_operations_so_far'), w2) = megatron_load w1;
          self1 = self\<lparr>iteration := iteration',
                       num_floating_point_operations_so_far :=
                         num_floating_point_operations_so_far'\<rparr>
      in if fp16 (w_args w2) \<and> iteration self1 = 0
         then (self1, w2\<lparr>w_engine := reload_model_params (w_engine w2)\<rparr>)
         else (self1, w2))"

text \<open>
  The contract of Megatron's checkpointing that the round trip rests on: loading from
  the directory a checkpoint was saved to, with the engine state as the save left it,
  returns the iteration and the operation count that were saved.
\<close>

definition checkpoint_contract ::
  "(int \<Rightarrow> real \<Rightarrow> 'x world \<Rightarrow> 'x world) \<Rightarrow> ('x world \<Rightarrow> (int \<times> real) \<times> 'x world) \<Rightarrow> bool" where
  "checkpoint_contract megatron_save megatron_load \<longleftrightarrow>
     (\<forall>it fl w w'. save (w_args w) \<noteq> None \<and> load (w_args w') = save (w_args w) \<and>
        w_engine w' = w_engine (megatron_save it fl w) \<longrightarrow>
        fst (megatron_load w') = (it, fl))"

text \<open>
  The values that the per-microbatch loss dictionaries hold under a key, in microbatch
  order; \<open>None\<close> when a dictionary lacks the key.
\<close>

fun values_at :: "string \<Rightarrow> 't loss_dict list \<Rightarrow> 't list option" where
  "values_at key [] = Some []"
| "values_at key (d # ds) =
     (case map_of d key of
        None \<Rightarrow> None
      | Some v \<Rightarrow> (case values_at key ds of None \<Rightarrow> None | Some vs \<Rightarrow> Some (v # vs)))"

text \<open>
  When the reduction of a key goes through: every dictionary has the key and PyTorch
  raises neither in the sum (first value zero-dimensional) nor in the concatenation
  (first value with a dimension).
\<close>

definition reducible_key :: "('t, 'f) torch_ops \<Rightarrow> 't loss_dict list \<Rightarrow> string \<Rightarrow> bool" where
  "reducible_key ops loss_dicts key =
     (case values_at key loss_dicts of
        None \<Rightarrow> False
      | Some [] \<Rightarrow> False
      | Some (first # rest) \<Rightarrow>
          if t_ndim ops first = 0 then \<not> isl (py_sum ops first rest)
          else \<not> isl (t_concat ops (first # rest)))"

definition reducible :: "('t, 'f) torch_ops \<Rightarrow> 't loss_dict list \<Rightarrow> bool" where
  "reducible ops loss_dicts =
     (case loss_dicts of
        [] \<Rightarrow> False
      | first # _ \<Rightarrow> list_all (reducible_key ops loss_dicts) (map fst first))"

section \<open>Decoder-only train step: batch decoding for generic batches\<close>

text \<open>
  \<^verbatim>\<open>GPTTrainStep.get_batch_func.get_batch_transformer\<close>. A token tensor of shape \<open>[b, l]\<close>
  is a list of \<open>b\<close> rows. Megatron's \<^verbatim>\<open>get_ltor_masks_and_position_ids\<close> is the parameter
  \<open>get_ltor_masks_and_position_ids\<close>; what it returns (attention mask, loss mask,
  position ids) is passed on unchanged as the third component of the result.
  \<^verbatim>\<open>send_to_device\<close> and \<^verbatim>\<open>contiguous\<close> do not change values. The source's variable
  \<^verbatim>\<open>tokens_\<close> is \<open>tokens_in\<close> before the padding column is appended and \<open>tokens_ext\<close>
  after.
\<close>

record gpt_train_step =
  eod_token :: int
  reset_position_ids :: bool
  reset_attention_mask :: bool
  eod_mask_loss :: bool

definition concat_dim1 :: "'a list list \<Rightarrow> 'a list list \<Rightarrow> 'a list list" where
  "concat_dim1 a b = map (\<lambda>(row_a, row_b). row_a @ row_b) (zip a b)"

definition gpt_get_batch_transformer ::
  "(int list list \<Rightarrow> int \<Rightarrow> bool \<Rightarrow> bool \<Rightarrow> bool \<Rightarrow> 'm) \<Rightarrow> gpt_train_step \<Rightarrow>
   (int list list) megatron_iterator \<Rightarrow>
   py_error + ((int list list \<times> int list list \<times> 'm) \<times> (int list list) megatron_iterator)" where
  "gpt_get_batch_transformer get_ltor_masks_and_position_ids self data_iterator =
     (case iterator_next data_iterator of
        Inl e \<Rightarrow> Inl e
      | Inr (data, data_iterator') \<Rightarrow>
          (case dict_get data ''input_ids'' ''input_ids'' of
             Inl e \<Rightarrow> Inl e
           | Inr input_ids \<Rightarrow>
               (let tokens_in = input_ids;
                    padding = replicate (length tokens_in) [0 + eod_token self];
                    tokens_ext = concat_dim1 tokens_in padding;
                    labels = map (drop 1) tokens_ext;
                    tokens = map butlast tokens_ext;
                    masks = get_ltor_masks_and_position_ids tokens (eod_token self)
                              (reset_position_ids self) (reset_attention_mask self) True
                in Inr ((tokens, labels, masks), data_iterator'))))"

section \<open>Encoder-only train step: fine-tuning loss\<close>

text \<open>
  A Python object is known by its instance attributes. \<^verbatim>\<open>BertTrainStep.__init__\<close> assigns
  \<^verbatim>\<open>name\<close> (in \<^verbatim>\<open>AbstractTrainStep.__init__\<close>), \<^verbatim>\<open>get_batch\<close>, \<^verbatim>\<open>loss_func\<close>,
  \<^verbatim>\<open>forward_step\<close> and \<^verbatim>\<open>model_output_class\<close>; neither class defines any other data
  attribute. Functions are recorded by name. \<open>pretrain_bert_importable\<close> says whether
  \<^verbatim>\<open>from pretrain_bert import get_batch\<close> succeeds.
\<close>

datatype attr_value =
    AttrStr string
  | AttrInt int
  | AttrFunc string
  | AttrClass string
  | AttrNone

type_synonym py_object = "string \<rightharpoonup> attr_value"

record megatron_lm_plugin =
  custom_get_batch_function :: "string option"
  custom_loss_function :: "string option"

definition getattr :: "py_object \<Rightarrow> string \<Rightarrow> py_error + attr_value" where
  "getattr obj name =
     (case obj name of None \<Rightarrow> Inl (AttributeError name) | Some v \<Rightarrow> Inr v)"

definition bert_get_batch_func :: "megatron_lm_plugin \<Rightarrow> bool \<Rightarrow> bool \<Rightarrow> string" where
  "bert_get_batch_func plugin dataset_flag pretrain_bert_importable =
     (case custom_get_batch_function plugin of
        Some f \<Rightarrow> f
      | None \<Rightarrow>
          if dataset_flag then
            (if pretrain_bert_importable then ''pretrain_bert.get_batch''
             else ''get_batch_megatron'')
          else ''get_batch_transformer'')"

definition bert_get_loss_func :: "megatron_lm_plugin \<Rightarrow> bool \<Rightarrow> string" where
  "bert_get_loss_func plugin pretraining =
     (case custom_loss_function plugin of
        Some f \<Rightarrow> f
      | None \<Rightarrow> if pretraining then ''loss_func_pretrain'' else ''loss_func_finetune'')"

definition BertTrainStep_init :: "megatron_lm_plugin \<Rightarrow> megatron_args \<Rightarrow> bool \<Rightarrow> py_object" where
  "BertTrainStep_init plugin args pretrain_bert_importable =
     (let self = Map.empty(''name'' \<mapsto> AttrStr ''BertTrainStep'');
          self = self(''get_batch'' \<mapsto> AttrFunc (bert_get_batch_func plugin
                        (megatron_dataset_flag args) pretrain_bert_importable));
          self = self(''loss_func'' \<mapsto> AttrFunc (bert_get_loss_func plugin
                        (pretraining_flag args)));
          self = self(''forward_step'' \<mapsto> AttrFunc ''forward_step'')
      in if \<not> model_return_dict args then self(''model_output_class'' \<mapsto> AttrNone)
         else self(''model_output_class'' \<mapsto> AttrClass ''SequenceClassifierOutput''))"

text \<open>
  \<^verbatim>\<open>BertTrainStep.get_loss_func.loss_func_finetune\<close>, a closure over \<^verbatim>\<open>self\<close> and
  \<^verbatim>\<open>num_labels\<close>. The three PyTorch losses and
  \<^verbatim>\<open>average_losses_across_data_parallel_group\<close> are parameters; \<open>labels_dtype\<close> is
  \<^verbatim>\<open>labels.dtype\<close>.
\<close>

datatype dtype = TorchLong | TorchInt | TorchFloat | TorchOther

definition loss_func_finetune ::
  "('t \<Rightarrow> 't \<Rightarrow> 'l) \<Rightarrow> (int \<Rightarrow> 't \<Rightarrow> 't \<Rightarrow> 'l) \<Rightarrow> ('t \<Rightarrow> 't \<Rightarrow> 'l) \<Rightarrow> ('l \<Rightarrow> 'l) \<Rightarrow>
   py_object \<Rightarrow> int \<Rightarrow> dtype \<Rightarrow> 't \<Rightarrow> 't \<Rightarrow> py_error + ('l \<times> (string \<times> 'l) list)" where
  "loss_func_finetune MSELoss CrossEntropyLoss BCEWithLogitsLoss average self num_labels'
                      labels_dtype labels logits =
     (let finish = (\<lambda>loss. Inr (loss, [(''loss'', average loss)])) in
      if num_labels' = 1 then finish (MSELoss logits labels)
      else
        (case getattr self ''num_labels'' of
           Inl e \<Rightarrow> Inl e
         | Inr (AttrInt n) \<Rightarrow>
             if n > 1 \<and> (labels_dtype = TorchLong \<or> labels_dtype = TorchInt)
             then finish (CrossEntropyLoss num_labels' logits labels)
             else finish (BCEWithLogitsLoss logits labels)
         | Inr _ \<Rightarrow> Inl (TypeError ''> not supported between these instances'')))"

section \<open>Concrete configurations used to exercise the model\<close>

definition gpt_args :: megatron_args where
  "gpt_args = \<lparr> model_type_name = ''gpt'', data_parallel_size = 1, sequence_parallel = False,
     recompute_granularity = None, vocab_file = Some ''vocab.json'',
     megatron_dataset_flag = False, micro_batch_size = 8, num_micro_batches = 4,
     consumed_samples = None, consumed_train_samples = 0, consumed_valid_samples = 0,
     consumed_test_samples = 0, tensorboard_dir = None, fp16 = False, save = None,
     load = None, virtual_pipeline_model_parallel_size = None, model_len = Some 1,
     pretraining_flag = False, num_labels = 2, bert_binary_head = False,
     model_return_dict = False \<rparr>"

definition no_kwargs :: generate_kwargs where
  "no_kwargs = \<lparr> kw_top_p_decay = None, kw_top_p_bound = None, kw_add_BOS = None,
                  kw_stop_token = None \<rparr>"

definition example_world :: "megatron_args \<Rightarrow> nat world" where
  "example_world a = \<lparr> w_args = a, w_skipped_iter = (\<lambda>_. False), w_engine = 0 \<rparr>"

definition native_args :: megatron_args where
  "native_args = gpt_args\<lparr>megatron_dataset_flag := True\<rparr>"

text \<open>
  A stand-in for Megatron's builder: data for training only, in one batch of
  \<^verbatim>\<open>args.micro_batch_size\<close> rows, one more build counted.
\<close>

definition example_build :: "(int list list, nat) megatron_build" where
  "example_build w =
     ((Some (ListIterator
         [[(''text'', replicate (nat (micro_batch_size (w_args w))) [1, 2, 3])]]),
       None, None),
      w\<lparr>w_engine := Suc (w_engine w)\<rparr>)"

definition example_set_vp_rank :: "int \<Rightarrow> nat \<Rightarrow> nat" where
  "example_set_vp_rank i x = x"

text \<open>
  A stand-in for PyTorch's constructor over datasets that are map-style (\<open>True\<close>) or
  iterable (\<open>False\<close>): it rejects a sampler given with an iterable dataset and a batch
  size that is not positive, and otherwise keeps the keyword arguments.
\<close>

definition example_DataLoader ::
  "bool \<Rightarrow> unit dataloader_kwargs \<Rightarrow> py_error + unit dataloader_kwargs" where
  "example_DataLoader map_style kw =
     (if \<not> map_style \<and> kw_sampler kw \<noteq> None
      then Inl (ValueError ''DataLoader with IterableDataset: expected unspecified sampler option'')
      else (case kw_batch_size kw of
              Some (Some n) \<Rightarrow>
                if n \<le> 0
                then Inl (ValueError ''batch_size should be a positive integer value'')
                else Inr kw
            | _ \<Rightarrow> Inr kw))"

definition example_loader :: "(bool, unit) torch_dataloader" where
  "example_loader = \<lparr> dl_dataset = True, dl_batch_size = Some 16,
     dl_sampler = \<lparr> is_BatchSampler = False, sampler_batch_size = None \<rparr>,
     dl_batch_sampler = Some \<lparr> is_BatchSampler = True, sampler_batch_size = Some 16 \<rparr>,
     dl_others = () \<rparr>"

text \<open>
  A stand-in for PyTorch's tensors used to exercise the model: exact numbers in place of
  floating-point ones, and tensors of at most one dimension.
\<close>

datatype exact_tensor = Scalar real | Vec "real list"

fun exact_ndim :: "exact_tensor \<Rightarrow> nat" where
  "exact_ndim (Scalar _) = 0"
| "exact_ndim (Vec _) = 1"

fun exact_entries :: "exact_tensor \<Rightarrow> real list" where
  "exact_entries (Scalar a) = [a]"
| "exact_entries (Vec v) = v"

fun exact_map :: "(real \<Rightarrow> real) \<Rightarrow> exact_tensor \<Rightarrow> exact_tensor" where
  "exact_map f (Scalar a) = Scalar (f a)"
| "exact_map f (Vec v) = Vec (map f v)"

fun exact_binop :: "(real \<Rightarrow> real \<Rightarrow> real) \<Rightarrow> exact_tensor \<Rightarrow> exact_tensor \<Rightarrow> py_error + exact_tensor" where
  "exact_binop f (Scalar a) y = Inr (exact_map (f a) y)"
| "exact_binop f (Vec u) (Scalar b) = Inr (Vec (map (\<lambda>x. f x b) u))"
| "exact_binop f (Vec u) (Vec v) =
     (if length u = length v then Inr (Vec (map (\<lambda>(x, y). f x y) (zip u v)))
      else if length u = 1 then Inr (Vec (map (f (hd u)) v))
      else if length v = 1 then Inr (Vec (map (\<lambda>x. f x (hd v)) u))
      else Inl (RuntimeError ''The size of tensor a must match the size of tensor b''))"

definition exact_concat :: "exact_tensor list \<Rightarrow> py_error + exact_tensor" where
  "exact_concat ts =
     (if ts = [] then Inl (RuntimeError ''torch.cat(): expected a non-empty list of Tensors'')
      else if list_ex (\<lambda>t. exact_ndim t = 0) ts
      then Inl (RuntimeError ''zero-dimensional tensor cannot be concatenated'')
      else Inr (Vec (concat (map exact_entries ts))))"

definition exact_item :: "exact_tensor \<Rightarrow> py_error + real" where
  "exact_item t =
     (case exact_entries t of
        [a] \<Rightarrow> Inr a
      | _ \<Rightarrow> Inl (RuntimeError ''a Tensor with more than one value cannot be converted to Scalar''))"

definition exact_ops :: "(exact_tensor, real) torch_ops" where
  "exact_ops = \<lparr> t_ndim = exact_ndim,
                 t_radd_int = (\<lambda>i. exact_map (\<lambda>x. real_of_int i + x)),
                 t_add = exact_binop (+),
                 t_div_int = (\<lambda>t n. exact_map (\<lambda>x. x / real_of_int n) t),
                 t_concat = exact_concat,
                 t_truediv = exact_binop (/),
                 t_item = exact_item \<rparr>"

definition example_engine :: "exact_tensor megatron_engine" where
  "example_engine = \<lparr> module_len = 1, optimizer_ref = 0, eval_total_loss_dict = [],
     iteration = 7, num_floating_point_operations_so_far = 1000 \<rparr>"

definition example_optimizer_wrapper :: optimizer_wrapper where
  "example_optimizer_wrapper = \<lparr> wrapped_optimizer = 0 \<rparr>"

text \<open>
  A stand-in for Megatron's \<^verbatim>\<open>train_step\<close>: it reports a skipped iteration exactly on
  every other call, counting calls in the engine state.
\<close>

definition example_train_step ::
  "(int list list) data_iterator \<Rightarrow> nat world \<Rightarrow> exact_tensor train_result \<times> nat world" where
  "example_train_step it w =
     (([(''lm loss'', Scalar 1)], (if even (w_engine w) then 1 else 0), None, None),
      w\<lparr>w_engine := Suc (w_engine w)\<rparr>)"

definition example_batch :: "(int list list) batch" where
  "example_batch = [(''input_ids'', [[1, 2], [3, 4]])]"

definition example_losses :: "exact_tensor loss_dict list" where
  "example_losses =
     [[(''lm loss'', Scalar 1), (''logits'', Vec [1, 2])],
      [(''lm loss'', Scalar 3), (''logits'', Vec [3])]]"

definition example_forward_only ::
  "(int list list) data_iterator \<Rightarrow> nat world \<Rightarrow> exact_tensor loss_dict list \<times> nat world" where
  "example_forward_only it w = (example_losses, w)"

text \<open>
  A stand-in for Megatron's checkpoint storage: the engine state is a list of
  directories with the counters saved there, newest first.
\<close>

definition example_save ::
  "int \<Rightarrow> real \<Rightarrow> (string \<times> int \<times> real) list world \<Rightarrow> (string \<times> int \<times> real) list world" where
  "example_save it fl w =
     (case save (w_args w) of
        None \<Rightarrow> w
      | Some dir \<Rightarrow> w\<lparr>w_engine := (dir, it, fl) # w_engine w\<rparr>)"

definition example_load ::
  "(string \<times> int \<times> real) list world \<Rightarrow> (int \<times> real) \<times> (string \<times> int \<times> real) list world" where
  "example_load w =
     ((case load (w_args w) of
         None \<Rightarrow> (0, 0)
       | Some dir \<Rightarrow> (case map_of (w_engine w) dir of None \<Rightarrow> (0, 0) | Some c \<Rightarrow> c)), w)"

definition checkpoint_world :: "(string \<times> int \<times> real) list world" where
  "checkpoint_world = \<lparr> w_args = gpt_args, w_skipped_iter = (\<lambda>_. False), w_engine = [] \<rparr>"

definition example_gpt_step :: gpt_train_step where
  "example_gpt_step = \<lparr> eod_token = 50256, reset_position_ids = False,
     reset_attention_mask = False, eod_mask_loss = False \<rparr>"

text \<open>A stand-in for Megatron's mask builder: the loss mask that hides the padding token.\<close>

definition example_ltor :: "int list list \<Rightarrow> int \<Rightarrow> bool \<Rightarrow> bool \<Rightarrow> bool \<Rightarrow> bool list list" where
  "example_ltor tokens eod reset_pos reset_att eod_mask =
     map (map (\<lambda>t. \<not> (eod_mask \<and> t = eod))) tokens"

definition example_plugin :: megatron_lm_plugin where
  "example_plugin = \<lparr> custom_get_batch_function = None, custom_loss_function = None \<rparr>"

definition bert_args :: megatron_args where
  "bert_args = gpt_args\<lparr>model_type_name := ''bert''\<rparr>"

definition example_iterator :: "(int list list) megatron_iterator" where
  "example_iterator =
     ListIterator [[(''input_ids'', [[1, 2, 3], [4, 5, 6]]),
                    (''attention_mask'', [[1, 1, 1], [1, 1, 0]])]]"

section \<open>Verified properties\<close>

subsection \<open>Generation parameter validation\<close>

lemma generate_rejects_temperature_zero:
  "passes_env_checks args ml mn \<Longrightarrow>
   megatron_generate args eod inputs ml mn nb (Some 0) tk tp lp kw =
     Raises (ValueError ''temperature must be a positive number less than or equal to 100.0'')"
  by (simp add: megatron_generate_def passes_env_checks_def)

lemma generate_accepts_temperature_50:
  "megatron_generate gpt_args 0 [[1, 2], [3, 4]] None (Some 5) None (Some 50) None None None
     no_kwargs =
   Proceeds \<lparr> req_max_length = None, req_max_new_tokens = Some 5, req_temperature = 50,
     req_top_k = 0, req_top_p = 0, req_top_p_decay = 0, req_top_p_bound = 0,
     req_add_BOS = False, req_beam_width = None, req_stop_token = Some 0,
     req_length_penalty = 1 \<rparr>"
  by (simp add: megatron_generate_def gpt_args_def no_kwargs_def check_stop_token_def)

lemma generate_rejects_top_k_1500:
  "passes_env_checks args ml mn \<Longrightarrow> temperature_ok t \<Longrightarrow>
   megatron_generate args eod inputs ml mn nb t (Some 1500) tp lp kw =
     Raises (ValueError ''top_k must be a positive number less than or equal to 1000'')"
  by (cases t) (simp_all add: megatron_generate_def passes_env_checks_def temperature_ok_def)

lemma generate_rejects_top_p_with_top_k:
  "passes_env_checks args ml mn \<Longrightarrow> temperature_ok t \<Longrightarrow>
   megatron_generate args eod inputs ml mn nb t (Some 10) (Some 0.9) lp kw =
     Raises (ValueError ''top_p and top_k sampling cannot be set together'')"
  by (cases t) (simp_all add: megatron_generate_def passes_env_checks_def temperature_ok_def)

text \<open>
  Claim C1. Every violated precondition of \<^verbatim>\<open>megatron_generate\<close> is said to raise a
  configuration error. The four sampling checks above do. The beam-search check does not:
  with \<^verbatim>\<open>num_beams = 2\<close> and an input batch of two prompts, every other argument valid,
  the call raises nothing and returns the message as an ordinary string value, where the
  sibling checks raise \<^verbatim>\<open>ValueError\<close>.
\<close>

theorem generate_beam_batch_returns_string:
  "megatron_generate gpt_args 0 [[1, 2], [3, 4]] None (Some 5) (Some (PyInt 2))
     None None None None no_kwargs =
   ReturnsStr ''When doing beam_search, batch size must be 1''"
  by (simp add: megatron_generate_def gpt_args_def no_kwargs_def)

subsection \<open>Self-attention mask\<close>

lemma attn_mask_postprocess_entries:
  "attn_mask_postprocess m = map (\<lambda>row. map (\<lambda>ci. map (\<lambda>x. lt_half (x * ci)) row) row) m"
  by (simp add: attn_mask_postprocess_def unsqueeze_1_def unsqueeze_2_def mul_b1s_bs1_def
      mul_1s_s1_def zip_map_map zip_same_conv_map comp_def)

lemma lt_half_binary:
  "x = 0 \<or> x = 1 \<Longrightarrow> c = 0 \<or> c = 1 \<Longrightarrow> lt_half (x * c) = (\<not> (gt_half x \<and> gt_half c))"
  by (auto simp: lt_half_def gt_half_def)

text \<open>
  Claim C2, as stated, fails: the returned tensor is not the elementwise AND of the two
  broadcasts. For the one-token mask \<open>[[1]]\<close> both broadcast entries exceed \<open>0.5\<close>, the AND
  is true, and the function returns false.
\<close>

theorem attn_mask_postprocess_not_and:
  "attn_mask_postprocess [[1]] = [[[False]]] \<and> spec_and_mask [[1]] = [[[True]]]"
  by (simp add: attn_mask_postprocess_entries spec_and_mask_def lt_half_def gt_half_def)

text \<open>
  Claim C2, amended. For every mask of shape \<open>[b, l]\<close> the result has shape \<open>[b, l, l]\<close>
  and its entry \<open>(n, i, j)\<close> is true exactly when the product of the row-broadcast entry
  \<open>m[n][j]\<close> and the column-broadcast entry \<open>m[n][i]\<close> is below \<open>0.5\<close>: true marks a
  masked-out position. For a mask of zeros and ones the result is therefore the
  elementwise negation of the AND of the two broadcasts.
\<close>

theorem attn_mask_postprocess_negated_and:
  assumes "has_shape2 b l m"
  shows "has_shape3 b l l (attn_mask_postprocess m) \<and>
         (\<forall>n<b. \<forall>i<l. \<forall>j<l.
            attn_mask_postprocess m ! n ! i ! j = lt_half (m ! n ! j * m ! n ! i)) \<and>
         (is_binary_mask m \<longrightarrow>
            attn_mask_postprocess m = map (map (map Not)) (spec_and_mask m))"
  using assms
  by (auto simp: attn_mask_postprocess_entries has_shape2_def has_shape3_def list_all_iff
      spec_and_mask_def is_binary_mask_def lt_half_binary)

theorem attn_mask_postprocess_negated_and_witness:
  "has_shape2 2 2 [[1, 0], [1, 1 :: int64]] \<and> is_binary_mask [[1, 0], [1, 1]] \<and>
   has_shape3 2 2 2 (attn_mask_postprocess [[1, 0], [1, 1]]) \<and>
   attn_mask_postprocess [[1, 0], [1, 1]] =
     map (map (map Not)) (spec_and_mask [[1, 0], [1, 1]]) \<and>
   attn_mask_postprocess [[1, 0], [1, 1]] =
     [[[False, True], [True, True]], [[False, False], [False, False]]]"
proof -
  have shape: "has_shape2 2 2 [[1, 0], [1, 1 :: int64]]"
    by (simp add: has_shape2_def)
  have binary: "is_binary_mask [[1, 0], [1, 1]]"
    by (simp add: is_binary_mask_def)
  have val: "attn_mask_postprocess [[1, 0], [1, 1]] =
     [[[False, True], [True, True]], [[False, False], [False, False]]]"
    by (simp add: attn_mask_postprocess_entries lt_half_def)
  from attn_mask_postprocess_negated_and [OF shape] shape binary val show ?thesis
    by blast
qed

subsection \<open>The stand-in iterator\<close>

lemma next_calls_dummy:
  "next_calls n (DummyMegatronDataloader :: 'v megatron_iterator) =
     Inr (replicate n [], DummyMegatronDataloader)"
  by (induction n) simp_all

text \<open>
  Claim C5. On a rank whose iterator is \<^verbatim>\<open>None\<close> while the source rank's is present,
  \<^verbatim>\<open>_handle_megatron_data_iterator\<close> substitutes a \<open>DummyMegatronDataloader\<close>. Its
  \<^verbatim>\<open>next\<close> returns the empty mapping and leaves the iterator as it was, so any number
  \<open>n\<close> of calls returns \<open>n\<close> empty mappings and none raises \<^verbatim>\<open>StopIteration\<close>.
\<close>

theorem dummy_dataloader_never_stops:
  "handle_megatron_data_iterator False (PyNone :: 'v data_iterator) =
     Iterator DummyMegatronDataloader \<and>
   iterator_next (DummyMegatronDataloader :: 'v megatron_iterator) =
     Inr ([], DummyMegatronDataloader) \<and>
   (\<forall>n. next_calls n (DummyMegatronDataloader :: 'v megatron_iterator) =
      Inr (replicate n [], DummyMegatronDataloader))"
  by (simp add: handle_megatron_data_iterator_def next_calls_dummy)

theorem dummy_dataloader_never_stops_witness:
  "next_calls 3 (DummyMegatronDataloader :: nat megatron_iterator) =
     Inr ([[], [], []], DummyMegatronDataloader)"
proof -
  from dummy_dataloader_never_stops [where ?'v = nat]
  have "next_calls 3 (DummyMegatronDataloader :: nat megatron_iterator) =
     Inr (replicate 3 [], DummyMegatronDataloader)"
    by blast
  then show ?thesis by (simp add: numeral_3_eq_3)
qed

subsection \<open>Generic-mode dataloader\<close>

lemma generic_batch_size_given:
  assumes "\<not> megatron_dataset_flag (w_args w)" and "dl_batch_size dl = Some n"
  shows "\<exists>kw. effective_batch_size kw =
               Some (micro_batch_size (w_args w) * num_micro_batches (w_args w)) \<and>
             kw_others kw = dl_others dl \<and>
             prepare_data_loader DL mb sv dpw dpr src (TorchDataLoader dl) w =
               (handed_on dpw dpr (DL (dl_dataset dl) kw), w)"
proof -
  let ?kw = "\<lparr> kw_batch_size = Some (Some (micro_batch_size (w_args w) * num_micro_batches (w_args w))),
               kw_shuffle = Some False, kw_sampler = Some (dl_sampler dl),
               kw_batch_sampler = None, kw_others = dl_others dl \<rparr>"
  have "prepare_data_loader DL mb sv dpw dpr src (TorchDataLoader dl) w =
          (handed_on dpw dpr (DL (dl_dataset dl) ?kw), w)"
    using assms by (simp add: prepare_data_loader_def handed_on_def Let_def)
  moreover have "effective_batch_size ?kw =
      Some (micro_batch_size (w_args w) * num_micro_batches (w_args w))"
    by (simp add: effective_batch_size_def)
  ultimately show ?thesis by (intro exI [of _ ?kw]) simp
qed

lemma generic_sampler_is_batch_sampler:
  assumes "\<not> megatron_dataset_flag (w_args w)" and "dl_batch_size dl = None"
    and "is_BatchSampler (dl_sampler dl)" and "dl_batch_sampler dl = None"
  shows "\<exists>kw. effective_batch_size kw =
               Some (micro_batch_size (w_args w) * num_micro_batches (w_args w)) \<and>
             kw_others kw = dl_others dl \<and>
             prepare_data_loader DL mb sv dpw dpr src (TorchDataLoader dl) w =
               (handed_on dpw dpr (DL (dl_dataset dl) kw), w)"
proof -
  let ?kw = "\<lparr> kw_batch_size = Some None, kw_shuffle = Some False,
               kw_sampler = Some ((dl_sampler dl)\<lparr>sampler_batch_size :=
                 Some (micro_batch_size (w_args w) * num_micro_batches (w_args w))\<rparr>),
               kw_batch_sampler = Some None, kw_others = dl_others dl \<rparr>"
  have "prepare_data_loader DL mb sv dpw dpr src (TorchDataLoader dl) w =
          (handed_on dpw dpr (DL (dl_dataset dl) ?kw), w)"
    using assms by (simp add: prepare_data_loader_def handed_on_def Let_def)
  moreover have "effective_batch_size ?kw =
      Some (micro_batch_size (w_args w) * num_micro_batches (w_args w))"
    using assms by (simp add: effective_batch_size_def)
  ultimately show ?thesis by (intro exI [of _ ?kw]) simp
qed

lemma generic_batch_sampler:
  assumes "\<not> megatron_dataset_flag (w_args w)" and "dl_batch_size dl = None"
    and "\<not> is_BatchSampler (dl_sampler dl)" and "dl_batch_sampler dl = Some bs"
  shows "\<exists>kw. effective_batch_size kw =
               Some (micro_batch_size (w_args w) * num_micro_batches (w_args w)) \<and>
             kw_others kw = dl_others dl \<and>
             prepare_data_loader DL mb sv dpw dpr src (TorchDataLoader dl) w =
               (handed_on dpw dpr (DL (dl_dataset dl) kw), w)"
proof -
  let ?kw = "\<lparr> kw_batch_size = None, kw_shuffle = None, kw_sampler = None,
               kw_batch_sampler = Some (Some (bs\<lparr>sampler_batch_size :=
                 Some (micro_batch_size (w_args w) * num_micro_batches (w_args w))\<rparr>)),
               kw_others = dl_others dl \<rparr>"
  have "prepare_data_loader DL mb sv dpw dpr src (TorchDataLoader dl) w =
          (handed_on dpw dpr (DL (dl_dataset dl) ?kw), w)"
    using assms by (simp add: prepare_data_loader_def handed_on_def Let_def)
  moreover have "effective_batch_size ?kw =
      Some (micro_batch_size (w_args w) * num_micro_batches (w_args w))"
    by (simp add: effective_batch_size_def)
  ultimately show ?thesis by (intro exI [of _ ?kw]) simp
qed

lemma generic_no_batch_sampler:
  assumes "\<not> megatron_dataset_flag (w_args w)" and "dl_batch_size dl = None"
    and "\<not> is_BatchSampler (dl_sampler dl)" and "dl_batch_sampler dl = None"
  shows "prepare_data_loader DL mb sv dpw dpr src (TorchDataLoader dl) w =
           (Inl (AttributeError ''batch_size''), w)"
  using assms by (simp add: prepare_data_loader_def Let_def)

text \<open>
  Claim C6. In generic mode, for every PyTorch loader that has a batch size somewhere
  (its own \<^verbatim>\<open>batch_size\<close>, a batch sampler, or a \<^verbatim>\<open>BatchSampler\<close> used as sampler) the
  function calls the \<^verbatim>\<open>DataLoader\<close> constructor on the loader's dataset with keyword
  arguments whose batch size is \<open>micro_batch_size * num_micro_batches\<close>, set as
  \<^verbatim>\<open>batch_size\<close> or on the batch sampler. If the constructor raises, so does the function;
  otherwise the rebuilt loader is handed to Accelerate's \<^verbatim>\<open>prepare_data_loader\<close> with
  \<^verbatim>\<open>split_batches=False\<close>. The one loader shape left has no object to carry a batch
  size; there the assignment fails with an attribute error and nothing is rebuilt.
\<close>

theorem generic_loader_batch_size:
  assumes flag: "\<not> megatron_dataset_flag (w_args w)"
    and inv: "dataloader_invariant dl"
  shows "if no_batch_size_anywhere dl
         then prepare_data_loader DL mb sv dpw dpr src (TorchDataLoader dl) w =
                (Inl (AttributeError ''batch_size''), w)
         else (\<exists>kw. effective_batch_size kw =
                      Some (micro_batch_size (w_args w) * num_micro_batches (w_args w)) \<and>
                    kw_others kw = dl_others dl \<and>
                    prepare_data_loader DL mb sv dpw dpr src (TorchDataLoader dl) w =
                      (handed_on dpw dpr (DL (dl_dataset dl) kw), w))"
proof (cases "dl_batch_size dl")
  case (Some n)
  then show ?thesis
    using generic_batch_size_given [OF flag Some] by (simp add: no_batch_size_anywhere_def)
next
  case None
  show ?thesis
  proof (cases "is_BatchSampler (dl_sampler dl)")
    case True
    with inv None have nobs: "dl_batch_sampler dl = None"
      by (auto simp: dataloader_invariant_def)
    then show ?thesis
      using generic_sampler_is_batch_sampler [OF flag None True nobs] True
      by (simp add: no_batch_size_anywhere_def)
  next
    case False
    show ?thesis
    proof (cases "dl_batch_sampler dl")
      case None': None
      then show ?thesis
        using generic_no_batch_sampler [OF flag None False None']
        by (simp add: no_batch_size_anywhere_def None False)
    next
      case (Some bs)
      then show ?thesis
        using generic_batch_sampler [OF flag None False Some]
        by (simp add: no_batch_size_anywhere_def)
    qed
  qed
qed

lemma example_DataLoader_accepts:
  "effective_batch_size kw = Some 32 \<Longrightarrow> example_DataLoader True kw = Inr kw"
  by (auto simp: example_DataLoader_def effective_batch_size_def split: option.splits)

theorem generic_loader_batch_size_witness:
  "\<not> megatron_dataset_flag (w_args (example_world gpt_args)) \<and>
   dataloader_invariant example_loader \<and> \<not> no_batch_size_anywhere example_loader \<and>
   micro_batch_size gpt_args = 8 \<and> num_micro_batches gpt_args = 4 \<and>
   (\<exists>kw. effective_batch_size kw = Some 32 \<and>
      prepare_data_loader example_DataLoader example_build example_set_vp_rank 2 0
          (False, False, False) (TorchDataLoader example_loader) (example_world gpt_args) =
        (Inr (PreparedLoader \<lparr> pc_dataloader = kw, pc_num_processes = 2,
                pc_process_index = 0, pc_split_batches = False, pc_put_on_device = True \<rparr>),
         example_world gpt_args))"
proof -
  have flag: "\<not> megatron_dataset_flag (w_args (example_world gpt_args))"
    by (simp add: example_world_def gpt_args_def)
  have inv: "dataloader_invariant example_loader"
    by (simp add: dataloader_invariant_def example_loader_def)
  have some: "\<not> no_batch_size_anywhere example_loader"
    by (simp add: no_batch_size_anywhere_def example_loader_def)
  have sizes: "micro_batch_size (w_args (example_world gpt_args)) = 8"
    "num_micro_batches (w_args (example_world gpt_args)) = 4"
    "micro_batch_size gpt_args = 8" "num_micro_batches gpt_args = 4"
    by (simp_all add: example_world_def gpt_args_def)
  have ds: "dl_dataset example_loader = True" by (simp add: example_loader_def)
  from generic_loader_batch_size [OF flag inv, of example_DataLoader example_build example_set_vp_rank 2 0
      "(False, False, False)"] some sizes ds
  obtain kw where kw: "effective_batch_size kw = Some 32"
    "prepare_data_loader example_DataLoader example_build example_set_vp_rank 2 0
          (False, False, False) (TorchDataLoader example_loader) (example_world gpt_args) =
       (handed_on 2 0 (example_DataLoader True kw), example_world gpt_args)"
    by auto
  from kw(2) example_DataLoader_accepts [OF kw(1)]
  have "prepare_data_loader example_DataLoader example_build example_set_vp_rank 2 0
          (False, False, False) (TorchDataLoader example_loader) (example_world gpt_args) =
        (Inr (PreparedLoader \<lparr> pc_dataloader = kw, pc_num_processes = 2,
                pc_process_index = 0, pc_split_batches = False, pc_put_on_device = True \<rparr>),
         example_world gpt_args)"
    by (simp add: handed_on_def)
  with kw(1) flag inv some sizes show ?thesis by blast
qed

subsection \<open>Native-mode dataloader: micro-batch accounting\<close>

lemma native_unfold:
  assumes flag: "megatron_dataset_flag (w_args w)"
  shows "prepare_data_loader DL mb sv dpw dpr src MegatronLMDummyDataLoader w =
    (let (its, w3) = build_train_valid_test_data_iterators mb sv (builder_state w) in
     if num_micro_batches (w_args w3) = 0 then (Inl ZeroDivisionError, w3)
     else (Inr (handle_all src its),
           w3\<lparr>w_args := (w_args w3)\<lparr>micro_batch_size :=
                 micro_batch_size (w_args w3) div num_micro_batches (w_args w3)\<rparr>\<rparr>))"
  using flag
  by (simp add: prepare_data_loader_def builder_state_def handle_all_def Let_def split_beta)

lemma build_chunks_keeps:
  assumes "keeps_batch_args mb"
  shows "micro_batch_size (w_args (snd (build_chunks mb sv is acc w))) =
           micro_batch_size (w_args w) \<and>
         num_micro_batches (w_args (snd (build_chunks mb sv is acc w))) =
           num_micro_batches (w_args w)"
proof (induction "is" arbitrary: acc w)
  case Nil
  then show ?case by simp
next
  case (Cons i "is")
  obtain tr va te where acc: "acc = (tr, va, te)" by (cases acc) auto
  let ?w1 = "w\<lparr>w_engine := sv i (w_engine w)\<rparr>"
  obtain it0 it1 it2 w2 where b: "mb ?w1 = ((it0, it1, it2), w2)"
    by (metis prod.exhaust)
  from assms have "micro_batch_size (w_args (snd (mb ?w1))) = micro_batch_size (w_args ?w1)"
    and "num_micro_batches (w_args (snd (mb ?w1))) = num_micro_batches (w_args ?w1)"
    unfolding keeps_batch_args_def by blast+
  with b have "micro_batch_size (w_args w2) = micro_batch_size (w_args w)"
    and "num_micro_batches (w_args w2) = num_micro_batches (w_args w)" by simp_all
  then show ?case using Cons.IH [of "(tr @ [it0], va @ [it1], te @ [it2])" w2] acc b
    by simp
qed

lemma build_chunks_agree:
  assumes keeps: "keeps_batch_args mb"
    and agree: "\<forall>v. micro_batch_size (w_args v) = p \<longrightarrow> mb' v = mb v"
    and start: "micro_batch_size (w_args w) = p"
  shows "build_chunks mb' sv is acc w = build_chunks mb sv is acc w"
  using start
proof (induction "is" arbitrary: acc w)
  case Nil
  then show ?case by simp
next
  case (Cons i "is")
  obtain tr va te where acc: "acc = (tr, va, te)" by (cases acc) auto
  let ?w1 = "w\<lparr>w_engine := sv i (w_engine w)\<rparr>"
  obtain it0 it1 it2 w2 where b: "mb ?w1 = ((it0, it1, it2), w2)"
    by (metis prod.exhaust)
  have p1: "micro_batch_size (w_args ?w1) = p" using Cons.prems by simp
  with agree have b': "mb' ?w1 = ((it0, it1, it2), w2)" using b by simp
  from keeps have "micro_batch_size (w_args (snd (mb ?w1))) = micro_batch_size (w_args ?w1)"
    unfolding keeps_batch_args_def by blast
  with b p1 have "micro_batch_size (w_args w2) = p" by simp
  from Cons.IH [OF this, of "(tr @ [it0], va @ [it1], te @ [it2])"] show ?case
    using acc b b' by simp
qed

lemma build_iterators_agree:
  assumes keeps: "keeps_batch_args mb"
    and agree: "\<forall>v. micro_batch_size (w_args v) = p \<longrightarrow> mb' v = mb v"
    and start: "micro_batch_size (w_args w) = p"
  shows "build_train_valid_test_data_iterators mb' sv w =
         build_train_valid_test_data_iterators mb sv w"
  using build_chunks_agree [OF keeps agree start] agree start
  by (simp add: build_train_valid_test_data_iterators_def)

lemma build_iterators_keeps:
  assumes "keeps_batch_args mb"
  shows "micro_batch_size
           (w_args (snd (build_train_valid_test_data_iterators mb sv w))) =
           micro_batch_size (w_args w) \<and>
         num_micro_batches
           (w_args (snd (build_train_valid_test_data_iterators mb sv w))) =
           num_micro_batches (w_args w)"
proof (cases "virtual_pipeline_model_parallel_size (w_args w) = None")
  case True
  from assms have "micro_batch_size (w_args (snd (mb w))) = micro_batch_size (w_args w)"
    and "num_micro_batches (w_args (snd (mb w))) = num_micro_batches (w_args w)"
    unfolding keeps_batch_args_def by blast+
  with True show ?thesis
    by (simp add: build_train_valid_test_data_iterators_def split_beta)
next
  case False
  then show ?thesis
    using build_chunks_keeps [OF assms, of sv _ "([], [], [])" w]
    by (simp add: build_train_valid_test_data_iterators_def split_beta Let_def)
qed

lemma builder_state_batch_args:
  "micro_batch_size (w_args (builder_state w)) =
     micro_batch_size (w_args w) * num_micro_batches (w_args w)"
  "num_micro_batches (w_args (builder_state w)) = num_micro_batches (w_args w)"
  "virtual_pipeline_model_parallel_size (w_args (builder_state w)) =
     virtual_pipeline_model_parallel_size (w_args w)"
  by (simp_all add: builder_state_def split_beta)

text \<open>
  Claim C9. In native mode \<^verbatim>\<open>args.micro_batch_size\<close> is multiplied by
  \<^verbatim>\<open>args.num_micro_batches\<close> before the iterators are built and floor-divided by it
  afterwards. Given a builder that leaves both settings alone: the iterators handed out
  are those built in the state that holds the product (without virtual pipeline
  parallelism, those of Megatron's builder applied to that state), and the call depends
  on the builder only through what it does on states holding the product; the call
  returns whenever the multiplier is not zero, and whenever it returns the micro-batch
  size is what it was before the call. With a multiplier of zero the division raises.
\<close>

theorem native_loader_restores_micro_batch_size:
  assumes flag: "megatron_dataset_flag (w_args w)"
    and keeps: "keeps_batch_args mb"
    and run: "prepare_data_loader DL mb sv dpw dpr src MegatronLMDummyDataLoader w = (res, w')"
  shows "micro_batch_size (w_args (builder_state w)) =
           micro_batch_size (w_args w) * num_micro_batches (w_args w) \<and>
         (\<exists>its w_built.
            build_train_valid_test_data_iterators mb sv (builder_state w) = (its, w_built) \<and>
            (virtual_pipeline_model_parallel_size (w_args w) = None \<longrightarrow>
               its = to_data_iterators (fst (mb (builder_state w))) \<and>
               w_built = snd (mb (builder_state w))) \<and>
            (num_micro_batches (w_args w) \<noteq> 0 \<longrightarrow>
               res = Inr (handle_all src its) \<and>
               w' = w_built\<lparr>w_args := (w_args w_built)\<lparr>micro_batch_size :=
                      micro_batch_size (w_args w_built) div num_micro_batches (w_args w)\<rparr>\<rparr>) \<and>
            (num_micro_batches (w_args w) = 0 \<longrightarrow>
               res = Inl ZeroDivisionError \<and> w' = w_built)) \<and>
         (\<forall>mb'. keeps_batch_args mb' \<longrightarrow>
            (\<forall>v. micro_batch_size (w_args v) =
                   micro_batch_size (w_args w) * num_micro_batches (w_args w) \<longrightarrow>
                 mb' v = mb v) \<longrightarrow>
            prepare_data_loader DL mb' sv dpw dpr src MegatronLMDummyDataLoader w = (res, w')) \<and>
         (num_micro_batches (w_args w) \<noteq> 0 \<longrightarrow> (\<exists>r. res = Inr r)) \<and>
         (num_micro_batches (w_args w) = 0 \<longrightarrow> res = Inl ZeroDivisionError) \<and>
         ((\<exists>r. res = Inr r) \<longrightarrow> micro_batch_size (w_args w') = micro_batch_size (w_args w))"
proof -
  let ?p = "micro_batch_size (w_args w) * num_micro_batches (w_args w)"
  obtain its w3 where b: "build_train_valid_test_data_iterators mb sv (builder_state w) = (its, w3)"
    by (metis prod.exhaust)
  from build_iterators_keeps [OF keeps, of sv "builder_state w"] b
  have w3_m: "micro_batch_size (w_args w3) = ?p"
    and w3_n: "num_micro_batches (w_args w3) = num_micro_batches (w_args w)"
    by (simp_all add: builder_state_batch_args)
  have res: "(res, w') =
       (if num_micro_batches (w_args w) = 0 then (Inl ZeroDivisionError, w3)
        else (Inr (handle_all src its),
              w3\<lparr>w_args := (w_args w3)\<lparr>micro_batch_size :=
                    micro_batch_size (w_args w3) div num_micro_batches (w_args w)\<rparr>\<rparr>))"
    unfolding run [symmetric] native_unfold [OF flag] by (simp add: b w3_n)
  have novp: "virtual_pipeline_model_parallel_size (w_args w) = None \<longrightarrow>
               its = to_data_iterators (fst (mb (builder_state w))) \<and>
               w3 = snd (mb (builder_state w))"
    using b
    by (auto simp: build_train_valid_test_data_iterators_def builder_state_batch_args
        to_data_iterators_def split_beta)
  have agree: "prepare_data_loader DL mb' sv dpw dpr src MegatronLMDummyDataLoader w = (res, w')"
    if k: "keeps_batch_args mb'"
      and a: "\<forall>v. micro_batch_size (w_args v) = ?p \<longrightarrow> mb' v = mb v" for mb'
  proof -
    have "build_train_valid_test_data_iterators mb' sv (builder_state w) =
          build_train_valid_test_data_iterators mb sv (builder_state w)"
      by (rule build_iterators_agree [OF keeps a]) (simp add: builder_state_batch_args)
    then show ?thesis
      unfolding run [symmetric] native_unfold [OF flag] by simp
  qed
  show ?thesis
  proof (cases "num_micro_batches (w_args w) = 0")
    case True
    with res b novp agree show ?thesis
      by (auto simp: builder_state_batch_args)
  next
    case False
    with res b novp agree w3_m show ?thesis
      by (auto simp: builder_state_batch_args)
  qed
qed

theorem native_loader_restores_micro_batch_size_witness:
  "megatron_dataset_flag (w_args (example_world native_args)) \<and>
   keeps_batch_args example_build \<and>
   micro_batch_size (w_args (example_world native_args)) = 8 \<and>
   num_micro_batches (w_args (example_world native_args)) = 4 \<and>
   micro_batch_size (w_args (builder_state (example_world native_args))) = 32 \<and>
   fst (prepare_data_loader example_DataLoader example_build example_set_vp_rank 1 0
          (False, False, False) MegatronLMDummyDataLoader (example_world native_args)) =
     Inr (DataIterators
            (Iterator (ListIterator [[(''text'', replicate 32 [1, 2, 3])]]))
            (Iterator DummyMegatronDataloader) (Iterator DummyMegatronDataloader)) \<and>
   micro_batch_size (w_args (snd
     (prepare_data_loader example_DataLoader example_build example_set_vp_rank 1 0
        (False, False, False) MegatronLMDummyDataLoader (example_world native_args)))) = 8"
proof -
  let ?w = "example_world native_args"
  let ?run = "prepare_data_loader example_DataLoader example_build example_set_vp_rank 1 0
     (False, False, False) MegatronLMDummyDataLoader ?w"
  have flag: "megatron_dataset_flag (w_args ?w)"
    by (simp add: example_world_def native_args_def)
  have keeps: "keeps_batch_args example_build"
    by (simp add: keeps_batch_args_def example_build_def)
  have run: "?run = (fst ?run, snd ?run)" by simp
  have vals: "num_micro_batches (w_args ?w) \<noteq> 0" "micro_batch_size (w_args ?w) = 8"
    "num_micro_batches (w_args ?w) = 4"
    "virtual_pipeline_model_parallel_size (w_args ?w) = None"
    by (simp_all add: example_world_def native_args_def gpt_args_def)
  have built: "to_data_iterators (fst (example_build (builder_state ?w))) =
      (Iterator (ListIterator [[(''text'', replicate 32 [1, 2, 3])]]), PyNone, PyNone)"
    by (simp add: to_data_iterators_def to_data_iterator_def example_build_def
        builder_state_batch_args vals)
  from native_loader_restores_micro_batch_size [OF flag keeps run] vals
  obtain its where its: "its = to_data_iterators (fst (example_build (builder_state ?w)))"
    "fst ?run = Inr (handle_all (False, False, False) its)"
    and multiplied: "micro_batch_size (w_args (builder_state ?w)) = 8 * 4"
    and restored: "micro_batch_size (w_args (snd ?run)) = 8"
    by auto
  from its built have "fst ?run = Inr (DataIterators
      (Iterator (ListIterator [[(''text'', replicate 32 [1, 2, 3])]]))
      (Iterator DummyMegatronDataloader) (Iterator DummyMegatronDataloader))"
    by (simp add: handle_all_def handle_megatron_data_iterator_def)
  with multiplied restored flag keeps vals show ?thesis by simp
qed

subsection \<open>Checkpoint round trip\<close>

lemma log_eval_results_counters:
  "log_eval_results ops self args = Inr self1 \<Longrightarrow>
   iteration self1 = iteration self \<and>
   num_floating_point_operations_so_far self1 = num_floating_point_operations_so_far self"
  by (auto simp: log_eval_results_def split: if_splits sum.splits)

text \<open>
  Claim C3. Let \<^verbatim>\<open>save_checkpoint(dir)\<close> return on an engine wrapper, and let
  \<^verbatim>\<open>load_checkpoint(dir)\<close> be called later with the state owned by Megatron (model,
  optimizer, scheduler, checkpoint storage) as the save left it; the wrapper's own
  counters may have moved on in between. Then the load sets the iteration counter and
  \<^verbatim>\<open>num_floating_point_operations_so_far\<close> to the values they had when the save was
  called. The wrapper passes both counters to Megatron's \<^verbatim>\<open>save_checkpoint\<close> and stores
  what Megatron's \<^verbatim>\<open>load_checkpoint\<close> returns; that Megatron returns what it was given is
  its contract, a hypothesis here.
\<close>

theorem checkpoint_round_trip:
  assumes contract: "checkpoint_contract megatron_save megatron_load"
    and saved: "save_checkpoint ops megatron_save dir self w = (Inr self1, w1)"
    and unchanged: "w_engine w_later = w_engine w1"
  shows "iteration (fst (load_checkpoint megatron_load reload dir self_later w_later)) =
           iteration self \<and>
         num_floating_point_operations_so_far
           (fst (load_checkpoint megatron_load reload dir self_later w_later)) =
           num_floating_point_operations_so_far self"
proof -
  let ?ws = "w\<lparr>w_args := (w_args w)\<lparr>save := Some dir\<rparr>\<rparr>"
  let ?wl = "w_later\<lparr>w_args := (w_args w_later)\<lparr>load := Some dir, consumed_train_samples := 0,
                                         consumed_valid_samples := 0\<rparr>\<rparr>"
  from saved obtain e where log: "log_eval_results ops self (w_args w) = Inr e"
    by (cases "log_eval_results ops self (w_args w)") (auto simp: save_checkpoint_def)
  with saved have e: "e = self1"
    and w1: "w1 = megatron_save (iteration e) (num_floating_point_operations_so_far e) ?ws"
    by (auto simp add: save_checkpoint_def Let_def)
  from log_eval_results_counters [OF log]
  have it: "iteration e = iteration self"
    and fl: "num_floating_point_operations_so_far e =
             num_floating_point_operations_so_far self"
    by simp_all
  have "save (w_args ?ws) \<noteq> None" and "load (w_args ?wl) = save (w_args ?ws)"
    and "w_engine ?wl =
         w_engine (megatron_save (iteration e) (num_floating_point_operations_so_far e) ?ws)"
    using unchanged w1 by simp_all
  with contract have "fst (megatron_load ?wl) =
      (iteration e, num_floating_point_operations_so_far e)"
    unfolding checkpoint_contract_def by blast
  then show ?thesis
    using it fl by (simp add: load_checkpoint_def Let_def split_beta)
qed

lemma example_checkpoint_contract: "checkpoint_contract example_save example_load"
  by (auto simp: checkpoint_contract_def example_save_def example_load_def
      split: option.splits)

theorem checkpoint_round_trip_witness:
  "checkpoint_contract example_save example_load \<and>
   fst (save_checkpoint exact_ops example_save ''ckpt'' example_engine checkpoint_world) =
     Inr example_engine \<and>
   iteration example_engine = 7 \<and>
   num_floating_point_operations_so_far example_engine = 1000 \<and>
   iteration (fst (load_checkpoint example_load id ''ckpt''
       (example_engine\<lparr>iteration := 9, num_floating_point_operations_so_far := 1250\<rparr>)
       (snd (save_checkpoint exact_ops example_save ''ckpt'' example_engine checkpoint_world)))) = 7 \<and>
   num_floating_point_operations_so_far (fst (load_checkpoint example_load id ''ckpt''
       (example_engine\<lparr>iteration := 9, num_floating_point_operations_so_far := 1250\<rparr>)
       (snd (save_checkpoint exact_ops example_save ''ckpt'' example_engine checkpoint_world)))) = 1000"
proof -
  let ?saved = "save_checkpoint exact_ops example_save ''ckpt'' example_engine checkpoint_world"
  have ok: "fst ?saved = Inr example_engine"
    by (simp add: save_checkpoint_def log_eval_results_def checkpoint_world_def gpt_args_def)
  then have saved: "?saved = (Inr example_engine, snd ?saved)"
    by (metis prod.collapse)
  have vals: "iteration example_engine = 7"
    "num_floating_point_operations_so_far example_engine = 1000"
    by (simp_all add: example_engine_def)
  from checkpoint_round_trip [where reload = id and self_later =
      "example_engine\<lparr>iteration := 9, num_floating_point_operations_so_far := 1250\<rparr>",
      OF example_checkpoint_contract saved refl]
    example_checkpoint_contract ok vals
  show ?thesis by simp
qed

subsection \<open>Skipped-step flag\<close>

text \<open>
  Claim C4. The optimizer wrapper and the engine wrapper refer to the same optimizer
  object. Let Megatron's \<^verbatim>\<open>train_step\<close>, called on the iterator that
  \<^verbatim>\<open>MegatronEngine.train_step\<close> builds from the batch, return the skipped-iteration
  indicator \<open>skipped_iter\<close>. Then after \<^verbatim>\<open>MegatronEngine.train_step\<close> the wrapper's
  \<^verbatim>\<open>step_was_skipped\<close> is true exactly when that indicator equals \<open>1\<close>, and the method
  returns what Megatron returned, unchanged.
\<close>

theorem step_was_skipped_after_train_step:
  assumes shared: "wrapped_optimizer opt = optimizer_ref self"
    and engine: "megatron_train_step (get_batch_data_iterator self (w_args w) batch_data) w =
                   ((loss_reduced, skipped_iter, grad_norm, num_zeros_in_grad), w1)"
  shows "step_was_skipped opt (snd (train_step megatron_train_step self batch_data w)) =
           (skipped_iter = 1) \<and>
         fst (train_step megatron_train_step self batch_data w) =
           (loss_reduced, skipped_iter, grad_norm, num_zeros_in_grad)"
  using assms
  by (simp add: train_step_def step_was_skipped_def Let_def)

theorem step_was_skipped_after_train_step_witness:
  "wrapped_optimizer example_optimizer_wrapper = optimizer_ref example_engine \<and>
   \<not> step_was_skipped example_optimizer_wrapper (example_world gpt_args) \<and>
   step_was_skipped example_optimizer_wrapper
     (snd (train_step example_train_step example_engine example_batch
             (example_world gpt_args))) \<and>
   \<not> step_was_skipped example_optimizer_wrapper
     (snd (train_step example_train_step example_engine example_batch
             (snd (train_step example_train_step example_engine example_batch
                     (example_world gpt_args)))))"
proof -
  let ?w = "example_world gpt_args"
  let ?w1 = "snd (train_step example_train_step example_engine example_batch ?w)"
  have shared: "wrapped_optimizer example_optimizer_wrapper = optimizer_ref example_engine"
    by (simp add: example_optimizer_wrapper_def example_engine_def)
  have before: "\<not> step_was_skipped example_optimizer_wrapper ?w"
    by (simp add: step_was_skipped_def example_world_def)
  have first: "example_train_step
      (get_batch_data_iterator example_engine (w_args ?w) example_batch) ?w =
      (([(''lm loss'', Scalar 1)], 1, None, None), ?w\<lparr>w_engine := 1\<rparr>)"
    by (simp add: example_train_step_def example_world_def)
  have count: "w_engine ?w1 = 1"
    by (simp add: train_step_def example_train_step_def example_world_def Let_def)
  have second: "example_train_step
      (get_batch_data_iterator example_engine (w_args ?w1) example_batch) ?w1 =
      (([(''lm loss'', Scalar 1)], 0, None, None), ?w1\<lparr>w_engine := 2\<rparr>)"
    using count by (simp add: example_train_step_def)
  from step_was_skipped_after_train_step [where megatron_train_step = example_train_step
      and self = example_engine and batch_data = example_batch and w = "?w", OF shared first]
    step_was_skipped_after_train_step [where megatron_train_step = example_train_step
      and self = example_engine and batch_data = example_batch and w = "?w1", OF shared second]
    shared before
  show ?thesis by simp
qed

subsection \<open>Evaluation step\<close>

lemma map_of_dict_set: "map_of (dict_set k v d) = (map_of d)(k \<mapsto> v)"
  by (induction d) (auto simp: fun_eq_iff)

lemma keys_dict_set: "fst ` set (dict_set k v d) = insert k (fst ` set d)"
  by (simp add: dom_map_of_conv_image_fst [symmetric] map_of_dict_set)

lemma losses_for_key_values:
  "losses_for_key ds key =
     (case values_at key ds of None \<Rightarrow> Inl (KeyError key) | Some vs \<Rightarrow> Inr vs)"
  by (induction ds) (auto simp: dict_get_def split: option.splits)

lemma values_at_length: "values_at key ds = Some vs \<Longrightarrow> length vs = length ds"
  by (induction ds arbitrary: vs) (auto split: option.splits)

lemma reduce_key_reducible:
  assumes "reducible_key ops ds key"
  shows "\<exists>first rest. values_at key ds = Some (first # rest) \<and>
           (t_ndim ops first = 0 \<longrightarrow>
              (\<exists>s. py_sum ops first rest = Inr s \<and>
                   reduce_key ops ds key = Inr (t_div_int ops s (int (length ds))))) \<and>
           (t_ndim ops first \<noteq> 0 \<longrightarrow>
              (\<exists>c. t_concat ops (first # rest) = Inr c \<and> reduce_key ops ds key = Inr c))"
proof -
  from assms obtain first rest where v: "values_at key ds = Some (first # rest)"
    by (auto simp: reducible_key_def split: option.splits list.splits)
  from values_at_length [OF v] have len: "Suc (length rest) = length ds" by simp
  show ?thesis
  proof (cases "t_ndim ops first = 0")
    case True
    with assms v obtain s where s: "py_sum ops first rest = Inr s"
      by (cases "py_sum ops first rest") (auto simp: reducible_key_def)
    with True v len show ?thesis
      by (auto simp: reduce_key_def losses_for_key_values)
  next
    case False
    with assms v obtain c where c: "t_concat ops (first # rest) = Inr c"
      by (cases "t_concat ops (first # rest)") (auto simp: reducible_key_def)
    with False v show ?thesis
      by (auto simp: reduce_key_def losses_for_key_values)
  qed
qed

lemma reduce_key_not_reducible:
  assumes "\<not> reducible_key ops ds key"
  shows "isl (reduce_key ops ds key)"
  using assms
  by (auto simp: reducible_key_def reduce_key_def losses_for_key_values
      split: option.splits list.splits sum.splits)

lemma reducible_Cons:
  "ds = d # rest \<Longrightarrow> reducible ops ds = list_all (reducible_key ops ds) (map fst d)"
  by (simp add: reducible_def)

lemma reduce_keys_reducible:
  assumes "list_all (reducible_key ops ds) keys"
  shows "\<exists>r. reduce_keys ops ds keys acc = Inr r \<and>
             fst ` set r = set keys \<union> fst ` set acc \<and>
             (\<forall>key. map_of r key =
                (if key \<in> set keys then Some (projr (reduce_key ops ds key))
                 else map_of acc key))"
  using assms
proof (induction keys arbitrary: acc)
  case Nil
  then show ?case by simp
next
  case (Cons k keys)
  from Cons.prems have "reducible_key ops ds k" by simp
  from reduce_key_reducible [OF this] obtain v where k: "reduce_key ops ds k = Inr v"
    by (cases "reduce_key ops ds k") auto
  from Cons.prems have rest: "list_all (reducible_key ops ds) keys" by simp
  from Cons.IH [OF rest, of "dict_set k v acc"]
  obtain r where r: "reduce_keys ops ds keys (dict_set k v acc) = Inr r"
    "fst ` set r = set keys \<union> fst ` set (dict_set k v acc)"
    "\<forall>key. map_of r key = (if key \<in> set keys then Some (projr (reduce_key ops ds key))
        else map_of (dict_set k v acc) key)"
    by blast
  show ?case
    using k r by (auto simp: map_of_dict_set keys_dict_set)
qed

lemma reduce_keys_not_reducible:
  assumes "\<not> list_all (reducible_key ops ds) keys"
  shows "isl (reduce_keys ops ds keys acc)"
  using assms
proof (induction keys arbitrary: acc)
  case Nil
  then show ?case by simp
next
  case (Cons k keys)
  show ?case
  proof (cases "reducible_key ops ds k")
    case False
    from reduce_key_not_reducible [OF this] show ?thesis
      by (cases "reduce_key ops ds k") auto
  next
    case True
    with Cons.prems have "\<not> list_all (reducible_key ops ds) keys" by simp
    from Cons.IH [OF this] show ?thesis
      by (cases "reduce_key ops ds k") auto
  qed
qed

text \<open>
  Claim C8. Let the forward-only pipeline run hand back the per-microbatch loss
  dictionaries. On a rank that is not the last pipeline stage \<^verbatim>\<open>eval_step\<close> returns the
  empty mapping. On the last stage it returns exactly when the dictionaries are
  reducible (there is one, each has every key of the first, and PyTorch raises in no
  sum and no concatenation); the mapping returned has the keys of the first
  dictionary. A key whose first value is zero-dimensional is assigned the arithmetic
  mean as the tensors compute it: Python's \<^verbatim>\<open>sum\<close> of the values in microbatch order,
  divided by their number. A key whose first value has a dimension is assigned
  \<^verbatim>\<open>torch.concat\<close> of the values in microbatch order.
\<close>

theorem eval_step_reduces_losses:
  assumes run: "forward_only (get_batch_data_iterator self (w_args w) batch_data) w =
                  (loss_dicts, w1)"
  shows "(\<not> is_last \<longrightarrow>
            fst (eval_step ops forward_only nmb dpw is_last self batch_data w) = Inr []) \<and>
         (is_last \<longrightarrow> \<not> reducible ops loss_dicts \<longrightarrow>
            isl (fst (eval_step ops forward_only nmb dpw is_last self batch_data w))) \<and>
         (is_last \<longrightarrow> reducible ops loss_dicts \<longrightarrow>
            (\<exists>r. fst (eval_step ops forward_only nmb dpw is_last self batch_data w) = Inr r \<and>
                 fst ` set r = fst ` set (hd loss_dicts) \<and>
                 (\<forall>key \<in> fst ` set (hd loss_dicts).
                    \<exists>first rest. values_at key loss_dicts = Some (first # rest) \<and>
                      (t_ndim ops first = 0 \<longrightarrow>
                         (\<exists>s. py_sum ops first rest = Inr s \<and>
                              map_of r key =
                                Some (t_div_int ops s (int (length loss_dicts))))) \<and>
                      (t_ndim ops first \<noteq> 0 \<longrightarrow>
                         (\<exists>c. t_concat ops (first # rest) = Inr c \<and>
                              map_of r key = Some c)))))"
proof (intro conjI impI)
  assume "\<not> is_last"
  then show "fst (eval_step ops forward_only nmb dpw is_last self batch_data w) = Inr []"
    using run by (simp add: eval_step_def Let_def)
next
  assume last: "is_last" and no: "\<not> reducible ops loss_dicts"
  have "isl (reduce_losses ops loss_dicts)"
  proof (cases loss_dicts)
    case Nil
    then show ?thesis by (simp add: reduce_losses_def)
  next
    case (Cons d rest)
    with no have "\<not> list_all (reducible_key ops loss_dicts) (map fst d)"
      by (simp add: reducible_def)
    from reduce_keys_not_reducible [OF this] Cons show ?thesis
      by (simp add: reduce_losses_def)
  qed
  then show "isl (fst (eval_step ops forward_only nmb dpw is_last self batch_data w))"
    using run last by (simp add: eval_step_def Let_def)
next
  assume last: "is_last" and ok: "reducible ops loss_dicts"
  then obtain d rest where ds: "loss_dicts = d # rest"
    by (cases loss_dicts) (auto simp: reducible_def)
  with ok have keys: "list_all (reducible_key ops loss_dicts) (map fst d)"
    by (simp add: reducible_def)
  from reduce_keys_reducible [OF keys, of "[]"]
  obtain r where r: "reduce_keys ops loss_dicts (map fst d) [] = Inr r"
    "fst ` set r = fst ` set d"
    "\<forall>key. map_of r key =
       (if key \<in> fst ` set d then Some (projr (reduce_key ops loss_dicts key)) else None)"
    by auto
  have res: "fst (eval_step ops forward_only nmb dpw is_last self batch_data w) = Inr r"
    using run last r(1) ds by (simp add: eval_step_def Let_def reduce_losses_def)
  have each: "\<exists>first rest. values_at key loss_dicts = Some (first # rest) \<and>
        (t_ndim ops first = 0 \<longrightarrow>
           (\<exists>s. py_sum ops first rest = Inr s \<and>
                map_of r key = Some (t_div_int ops s (int (length loss_dicts))))) \<and>
        (t_ndim ops first \<noteq> 0 \<longrightarrow>
           (\<exists>c. t_concat ops (first # rest) = Inr c \<and> map_of r key = Some c))"
    if k: "key \<in> fst ` set d" for key
  proof -
    from k keys have "reducible_key ops loss_dicts key"
      by (auto simp: list_all_iff)
    from reduce_key_reducible [OF this] k r(3) show ?thesis
      by (metis sum.sel(2))
  qed
  show "\<exists>r. fst (eval_step ops forward_only nmb dpw is_last self batch_data w) = Inr r \<and>
            fst ` set r = fst ` set (hd loss_dicts) \<and>
            (\<forall>key \<in> fst ` set (hd loss_dicts).
               \<exists>first rest. values_at key loss_dicts = Some (first # rest) \<and>
                 (t_ndim ops first = 0 \<longrightarrow>
                    (\<exists>s. py_sum ops first rest = Inr s \<and>
                         map_of r key = Some (t_div_int ops s (int (length loss_dicts))))) \<and>
                 (t_ndim ops first \<noteq> 0 \<longrightarrow>
                    (\<exists>c. t_concat ops (first # rest) = Inr c \<and> map_of r key = Some c)))"
    using res r(2) ds each by (intro exI [of _ r]) simp
qed

theorem eval_step_reduces_losses_witness:
  "reducible exact_ops example_losses \<and>
   fst (eval_step exact_ops example_forward_only 2 1 False example_engine example_batch
          (example_world gpt_args)) = Inr [] \<and>
   (\<exists>r. fst (eval_step exact_ops example_forward_only 2 1 True example_engine example_batch
               (example_world gpt_args)) = Inr r \<and>
        map_of r ''lm loss'' = Some (Scalar 2) \<and>
        map_of r ''logits'' = Some (Vec [1, 2, 3]))"
proof -
  have run: "example_forward_only
       (get_batch_data_iterator example_engine (w_args (example_world gpt_args)) example_batch)
       (example_world gpt_args) = (example_losses, example_world gpt_args)"
    by (simp add: example_forward_only_def)
  have lm: "values_at ''lm loss'' example_losses = Some [Scalar 1, Scalar 3]"
    and lg: "values_at ''logits'' example_losses = Some [Vec [1, 2], Vec [3]]"
    by (simp_all add: example_losses_def)
  have sum: "py_sum exact_ops (Scalar 1) [Scalar 3] = Inr (Scalar 4)"
    by (simp add: py_sum_def exact_ops_def)
  have cat: "t_concat exact_ops [Vec [1, 2], Vec [3]] = Inr (Vec [1, 2, 3])"
    by (simp add: exact_ops_def exact_concat_def)
  have dims: "t_ndim exact_ops (Scalar 1) = 0" "t_ndim exact_ops (Vec [1, 2]) \<noteq> 0"
    by (simp_all add: exact_ops_def)
  have half: "t_div_int exact_ops (Scalar 4) (int (length example_losses)) = Scalar 2"
    by (simp add: exact_ops_def example_losses_def)
  have k1: "reducible_key exact_ops example_losses ''lm loss''"
    using lm sum dims by (simp add: reducible_key_def)
  have k2: "reducible_key exact_ops example_losses ''logits''"
    using lg cat dims by (simp add: reducible_key_def)
  have shape: "example_losses = [(''lm loss'', Scalar 1), (''logits'', Vec [1, 2])] #
      [[(''lm loss'', Scalar 3), (''logits'', Vec [3])]]"
    by (simp add: example_losses_def)
  have ok: "reducible exact_ops example_losses"
    using reducible_Cons [OF shape, of exact_ops] k1 k2 by simp
  have keys: "''lm loss'' \<in> fst ` set (hd example_losses)"
    "''logits'' \<in> fst ` set (hd example_losses)"
    by (simp_all add: example_losses_def)
  from eval_step_reduces_losses [where forward_only = example_forward_only
      and self = example_engine and batch_data = example_batch and is_last = False
      and nmb = 2 and dpw = 1 and ops = exact_ops, OF run]
  have notlast: "fst (eval_step exact_ops example_forward_only 2 1 False example_engine
      example_batch (example_world gpt_args)) = Inr []" by simp
  from eval_step_reduces_losses [where forward_only = example_forward_only
      and self = example_engine and batch_data = example_batch and is_last = True
      and nmb = 2 and dpw = 1 and ops = exact_ops, OF run] ok
  obtain r where r: "fst (eval_step exact_ops example_forward_only 2 1 True example_engine
      example_batch (example_world gpt_args)) = Inr r"
    "\<forall>key \<in> fst ` set (hd example_losses).
       \<exists>first rest. values_at key example_losses = Some (first # rest) \<and>
         (t_ndim exact_ops first = 0 \<longrightarrow>
            (\<exists>s. py_sum exact_ops first rest = Inr s \<and>
                 map_of r key = Some (t_div_int exact_ops s (int (length example_losses))))) \<and>
         (t_ndim exact_ops first \<noteq> 0 \<longrightarrow>
            (\<exists>c. t_concat exact_ops (first # rest) = Inr c \<and> map_of r key = Some c))"
    by blast
  from r(2) keys(1) lm sum dims(1) half have "map_of r ''lm loss'' = Some (Scalar 2)"
    by fastforce
  moreover from r(2) keys(2) lg cat dims(2) have "map_of r ''logits'' = Some (Vec [1, 2, 3])"
    by fastforce
  ultimately show ?thesis using r(1) ok notlast by blast
qed

subsection \<open>Shift-by-one labels of the decoder-only batch decoder\<close>

lemma concat_dim1_padding:
  "concat_dim1 xs (replicate (length xs) [e]) = map (\<lambda>row. row @ [e]) xs"
  by (induction xs) (simp_all add: concat_dim1_def)

text \<open>
  Claim C7. Let the iterator yield a batch whose \<^verbatim>\<open>input_ids\<close> has shape \<open>[b, l]\<close>. The
  decoder appends the end-of-document token to every row and returns
  \<open>tokens = seq[:, :-1]\<close>, which is \<^verbatim>\<open>input_ids\<close> itself, and \<open>labels = seq[:, 1:]\<close>,
  each row of \<^verbatim>\<open>input_ids\<close> shifted left by one with the end-of-document token at the
  end. Both have shape \<open>[b, l]\<close>, and where rows are not empty the last label of every
  row is the end-of-document token.
\<close>

theorem gpt_batch_shift_by_one:
  assumes nxt: "iterator_next data_iterator = Inr (data, rest)"
    and ids: "map_of data ''input_ids'' = Some input_ids"
    and shape: "has_shape2 b l input_ids"
  shows "\<exists>labels masks.
           gpt_get_batch_transformer ltor self data_iterator =
             Inr ((input_ids, labels, masks), rest) \<and>
           labels = map (\<lambda>row. drop 1 (row @ [eod_token self])) input_ids \<and>
           has_shape2 b l labels \<and>
           (0 < l \<longrightarrow> list_all (\<lambda>row. last row = eod_token self) labels)"
proof -
  have "gpt_get_batch_transformer ltor self data_iterator =
     Inr ((input_ids, map (\<lambda>row. drop 1 (row @ [eod_token self])) input_ids,
           ltor input_ids (eod_token self) (reset_position_ids self)
             (reset_attention_mask self) True), rest)"
    using nxt ids
    by (simp add: gpt_get_batch_transformer_def dict_get_def concat_dim1_padding Let_def
        comp_def map_idI)
  moreover have "has_shape2 b l (map (\<lambda>row. drop 1 (row @ [eod_token self])) input_ids)"
    using shape by (auto simp: has_shape2_def list_all_iff)
  moreover have "0 < l \<longrightarrow> list_all (\<lambda>row. last row = eod_token self)
      (map (\<lambda>row. drop 1 (row @ [eod_token self])) input_ids)"
    using shape by (auto simp: has_shape2_def list_all_iff)
  ultimately show ?thesis by blast
qed

theorem gpt_batch_shift_by_one_witness:
  "has_shape2 2 3 [[1, 2, 3], [4, 5, 6 :: int]] \<and>
   (\<exists>masks. gpt_get_batch_transformer example_ltor example_gpt_step example_iterator =
      Inr (([[1, 2, 3], [4, 5, 6]], [[2, 3, 50256], [5, 6, 50256]], masks),
           ListIterator []))"
proof -
  have nxt: "iterator_next example_iterator =
      Inr ([(''input_ids'', [[1, 2, 3], [4, 5, 6]]),
            (''attention_mask'', [[1, 1, 1], [1, 1, 0]])], ListIterator [])"
    by (simp add: example_iterator_def)
  have ids: "map_of [(''input_ids'', [[1, 2, 3], [4, 5, 6 :: int]]),
                     (''attention_mask'', [[1, 1, 1], [1, 1, 0]])] ''input_ids'' =
             Some [[1, 2, 3], [4, 5, 6]]"
    by simp
  have shape: "has_shape2 2 3 [[1, 2, 3], [4, 5, 6 :: int]]"
    by (simp add: has_shape2_def)
  from gpt_batch_shift_by_one [OF nxt ids shape, of example_ltor example_gpt_step]
  obtain labels masks where r:
    "gpt_get_batch_transformer example_ltor example_gpt_step example_iterator =
       Inr (([[1, 2, 3], [4, 5, 6]], labels, masks), ListIterator [])"
    "labels = map (\<lambda>row. drop 1 (row @ [eod_token example_gpt_step]))
                [[1, 2, 3], [4, 5, 6]]"
    by blast
  from r(2) have "labels = [[2, 3, 50256], [5, 6, 50256]]"
    by (simp add: example_gpt_step_def)
  with r(1) shape show ?thesis by blast
qed

subsection \<open>Fine-tuning loss of the encoder-only train step\<close>

text \<open>
  Claim C10. On the object that \<^verbatim>\<open>BertTrainStep.__init__\<close> builds, whatever the plugin
  and the arguments, a call of \<^verbatim>\<open>loss_func_finetune\<close> with \<^verbatim>\<open>num_labels\<close> other than
  \<open>1\<close> raises \<^verbatim>\<open>AttributeError\<close> when it reads \<^verbatim>\<open>self.num_labels\<close>: no loss is computed
  and neither the cross-entropy nor the binary cross-entropy branch is reached.
\<close>

theorem bert_finetune_loss_attribute_error:
  assumes "n \<noteq> 1"
  shows "loss_func_finetune mse ce bce avg (BertTrainStep_init plugin args importable)
           n labels_dtype labels logits =
         Inl (AttributeError ''num_labels'')"
  using assms
  by (simp add: loss_func_finetune_def BertTrainStep_init_def getattr_def Let_def)

theorem bert_finetune_loss_attribute_error_witness:
  "(2 :: int) \<noteq> 1 \<and>
   loss_func_finetune (\<lambda>x y. (x - y) * (x - y)) (\<lambda>k x y. x + y) (\<lambda>x y. x * y) (\<lambda>l. l)
     (BertTrainStep_init example_plugin bert_args False) 2 TorchLong (1 :: real) 0 =
   Inl (AttributeError ''num_labels'')"
  using bert_finetune_loss_attribute_error [of 2 "\<lambda>x y. (x - y) * (x - y)" "\<lambda>k x y. x + y"
      "\<lambda>x y. x * y" "\<lambda>l. l" example_plugin bert_args False TorchLong "1 :: real" 0]
  by simp

end
